theory Spec2Isabelle
  imports Main "HOL-Library.Word"
begin

section \<open>Python values\<close>

text \<open>
  A Python \<open>str\<close> is the list of its Unicode code points; \<open>bytes\<close> is a list of
  8-bit words. \<open>lit\<close> writes an ASCII literal of the source as a \<open>str\<close>.
\<close>

type_synonym pystr = "nat list"
type_synonym pybytes = "8 word list"

definition lit :: "string \<Rightarrow> pystr" where
  "lit s = map of_char s"

text \<open>
  The values \<open>json.loads\<close> produces. A \<open>dict\<close> is an association list read with
  \<open>map_of\<close>; a finite \<open>float\<close> is the dyadic number \<open>m * 2 ^ e\<close>, written
  \<open>JFloat m e\<close> (the code only ever tests a number for truth).
\<close>

datatype json =
    JNull
  | JBool bool
  | JInt int
  | JFloat int int
  | JStr pystr
  | JArr "json list"
  | JObj "(pystr \<times> json) list"

text \<open>The exceptions the pipeline can meet. \<open>DownstreamError msg\<close> is any exception a
  collaborator (store, completion service, HTTP client) raises, with \<open>msg\<close> its message
  \<open>str(e)\<close>. The message of each other exception is an ASCII text.\<close>

datatype exn =
    AttributeError
  | TypeError
  | JSONDecodeError
  | UnicodeDecodeError
  | UnicodeEncodeError
  | HTTPException nat pystr
  | DownstreamError pystr

text \<open>Python truth of a value: \<open>not v\<close> is \<open>\<not> truthy v\<close>.\<close>

fun truthy :: "json \<Rightarrow> bool" where
  "truthy JNull = False"
| "truthy (JBool b) = b"
| "truthy (JInt i) = (i \<noteq> 0)"
| "truthy (JFloat m e) = (m \<noteq> 0)"
| "truthy (JStr s) = (s \<noteq> [])"
| "truthy (JArr xs) = (xs \<noteq> [])"
| "truthy (JObj kvs) = (kvs \<noteq> [])"

text \<open>\<open>v.get(key, default)\<close>: only a \<open>dict\<close> has the method; on any other value
  the attribute lookup raises \<open>AttributeError\<close>.\<close>

fun py_get :: "json \<Rightarrow> pystr \<Rightarrow> json \<Rightarrow> exn + json" where
  "py_get (JObj kvs) k d = Inr (case map_of kvs k of None \<Rightarrow> d | Some v \<Rightarrow> v)"
| "py_get _ k d = Inl AttributeError"

text \<open>\<open>for x in v\<close>: a list yields its elements, a \<open>str\<close> its characters, a
  \<open>dict\<close> its keys; nothing else is iterable (\<open>TypeError\<close>).\<close>

fun py_iter :: "json \<Rightarrow> exn + json list" where
  "py_iter (JArr xs) = Inr xs"
| "py_iter (JStr s) = Inr (map (\<lambda>c. JStr [c]) s)"
| "py_iter (JObj kvs) = Inr (map (\<lambda>kv. JStr (fst kv)) kvs)"
| "py_iter _ = Inl TypeError"

section \<open>Configuration and collaborators\<close>

text \<open>
  The state the pipeline acts on: the conversation store (turns in insertion order) and
  the log of every call made to a collaborator, oldest first.
\<close>

record turn =
  t_user :: json
  t_role :: pystr
  t_content :: json

datatype call =
    DbRead json nat
  | DbWrite json pystr json
  | Complete "json list" "int \<times> int" nat
  | HttpPost pystr "(pystr \<times> pystr) list" json

record world =
  store :: "turn list"
  calls :: "call list"

text \<open>
  The module's two globals (read from the process environment at import) and the
  library and collaborator functions the module calls but does not define. Each
  collaborator may answer differently at every call, so it reads the current world
  (store and call log); when it raises, it gives the message of its exception.
  \<^item> \<open>hmac_sha256 key body\<close> is \<open>hmac.new(key.encode('utf-8'), body, hashlib.sha256).digest()\<close>;
  \<^item> \<open>json_loads\<close> is \<open>json.loads\<close>;
  \<^item> \<open>complete_once\<close> is the completion service: its result, or the message of the
    exception it raises;
  \<^item> \<open>db_read_error\<close>, \<open>db_write_error\<close>: the message of the exception the store raises
    at this call, \<open>None\<close> when the call succeeds;
  \<^item> \<open>http_post\<close> is \<open>client.post(...)\<close> followed by \<open>raise_for_status()\<close> and
    \<open>response.json()\<close>: the decoded response, or the message of the exception raised;
  \<^item> \<open>stdout_encodes c\<close>: the encoding of \<open>sys.stdout\<close> can encode the character \<open>c\<close>
    (asked of non-ASCII characters only);
  \<^item> \<open>str_other v\<close> is \<open>str(v)\<close> for a value \<open>v\<close> that is not a \<open>str\<close>.
\<close>

record env =
  LINE_CHANNEL_SECRET :: pystr
  LINE_CHANNEL_ACCESS_TOKEN :: pystr
  hmac_sha256 :: "pystr \<Rightarrow> pybytes \<Rightarrow> pybytes"
  json_loads :: "pybytes \<Rightarrow> exn + json"
  complete_once :: "world \<Rightarrow> json list \<Rightarrow> pystr + json"
  db_read_error :: "world \<Rightarrow> json \<Rightarrow> pystr option"
  db_write_error :: "world \<Rightarrow> json \<Rightarrow> pystr \<Rightarrow> json \<Rightarrow> pystr option"
  http_post :: "world \<Rightarrow> pystr \<Rightarrow> (pystr \<times> pystr) list \<Rightarrow> json \<Rightarrow> pystr + json"
  stdout_encodes :: "nat \<Rightarrow> bool"
  str_other :: "json \<Rightarrow> pystr"

section \<open>Signature verification\<close>

text \<open>\<open>base64.b64encode(digest).decode('utf-8')\<close>: three bytes become four characters
  of the alphabet, a last group of one or two bytes is padded with \<open>=\<close>.\<close>

definition b64_alphabet :: pystr where
  "b64_alphabet = lit ''ABCDEFGHIJKLMNOPQRSTUVWXYZabcdefghijklmnopqrstuvwxyz0123456789+/''"

definition b64_char :: "nat \<Rightarrow> nat" where
  "b64_char i = b64_alphabet ! (i mod 64)"

definition b64_pad :: nat where
  "b64_pad = of_char (CHR ''='')"

fun b64encode :: "pybytes \<Rightarrow> pystr" where
  "b64encode [] = []"
| "b64encode [a] =
     (let n = unat a * 65536
      in [b64_char (n div 262144), b64_char (n div 4096), b64_pad, b64_pad])"
| "b64encode [a, b] =
     (let n = unat a * 65536 + unat b * 256
      in [b64_char (n div 262144), b64_char (n div 4096), b64_char (n div 64), b64_pad])"
| "b64encode (a # b # c # bs) =
     (let n = unat a * 65536 + unat b * 256 + unat c
      in [b64_char (n div 262144), b64_char (n div 4096), b64_char (n div 64), b64_char n]
         @ b64encode bs)"

text \<open>\<open>hmac.compare_digest\<close> on two \<open>str\<close>: equality, but a \<open>TypeError\<close> when either
  holds a character that is not ASCII.\<close>

definition is_ascii :: "pystr \<Rightarrow> bool" where
  "is_ascii s = list_all (\<lambda>c. c < 128) s"

definition compare_digest :: "pystr \<Rightarrow> pystr \<Rightarrow> exn + bool" where
  "compare_digest a b = (if is_ascii a \<and> is_ascii b then Inr (a = b) else Inl TypeError)"

text \<open>\<open>verify_signature\<close> (routers/line.py, lines 22-42). The signature is
  \<open>None\<close> when the header is absent. The two \<open>print\<close> calls write ASCII text only (the
  one at line 41 is reached only after \<open>compare_digest\<close> has accepted both strings as
  ASCII), which every encoding of stdout can encode; they are left out.\<close>

definition verify_signature :: "env \<Rightarrow> pybytes \<Rightarrow> pystr option \<Rightarrow> exn + bool" where
  "verify_signature env body signature =
     (case signature of
        None \<Rightarrow> Inr True
      | Some sig \<Rightarrow>
          if LINE_CHANNEL_SECRET env = [] \<or> sig = [] then Inr True
          else
            let hash_digest = hmac_sha256 env (LINE_CHANNEL_SECRET env) body;
                expected_signature = b64encode hash_digest
            in compare_digest sig expected_signature)"

section \<open>Effects\<close>

text \<open>
  A step of the program takes the world and returns the value it computes, or the
  exception it raises, together with the world it leaves: what was written or called
  before an exception stays written and called.
\<close>

type_synonym 'a io = "world \<Rightarrow> (exn + 'a) \<times> world"

definition io_return :: "'a \<Rightarrow> 'a io" where
  "io_return x w = (Inr x, w)"

definition io_raise :: "exn \<Rightarrow> 'a io" where
  "io_raise e w = (Inl e, w)"

definition io_lift :: "exn + 'a \<Rightarrow> 'a io" where
  "io_lift r w = (r, w)"

definition io_bind :: "'a io \<Rightarrow> ('a \<Rightarrow> 'b io) \<Rightarrow> 'b io" where
  "io_bind m f w = (case m w of (Inl e, w') \<Rightarrow> (Inl e, w') | (Inr x, w') \<Rightarrow> f x w')"

text \<open>\<open>try: m except Exception as e: h(e)\<close>.\<close>

definition io_catch :: "'a io \<Rightarrow> (exn \<Rightarrow> 'a io) \<Rightarrow> 'a io" where
  "io_catch m h w = (case m w of (Inl e, w') \<Rightarrow> h e w' | (Inr x, w') \<Rightarrow> (Inr x, w'))"

text \<open>\<open>for x in xs: await f(x)\<close>: an exception of one iteration ends the loop.\<close>

fun for_each :: "('a \<Rightarrow> unit io) \<Rightarrow> 'a list \<Rightarrow> unit io" where
  "for_each f [] w = (Inr (), w)"
| "for_each f (x # xs) w =
     (case f x w of (Inl e, w') \<Rightarrow> (Inl e, w') | (Inr u, w') \<Rightarrow> for_each f xs w')"

definition log_call :: "call \<Rightarrow> world \<Rightarrow> world" where
  "log_call c w = w\<lparr>calls := calls w @ [c]\<rparr>"

text \<open>The outcome of a collaborator's call: its value, or its exception.\<close>

definition outcome :: "pystr + 'a \<Rightarrow> exn + 'a" where
  "outcome r = (case r of Inl msg \<Rightarrow> Inl (DownstreamError msg) | Inr x \<Rightarrow> Inr x)"

section \<open>Diagnostic output\<close>

text \<open>
  \<open>print(s)\<close> encodes \<open>s\<close> for stdout and raises \<open>UnicodeEncodeError\<close> when a character
  cannot be encoded (a lone surrogate under UTF-8, any non-ASCII character under an ASCII
  stdout). ASCII characters can always be encoded. The text written is not recorded.
\<close>

definition encodable :: "env \<Rightarrow> pystr \<Rightarrow> bool" where
  "encodable env s = list_all (\<lambda>c. c < 128 \<or> stdout_encodes env c) s"

definition py_print :: "env \<Rightarrow> pystr \<Rightarrow> unit io" where
  "py_print env s = (if encodable env s then io_return () else io_raise UnicodeEncodeError)"

text \<open>\<open>str(v)\<close>, as an f-string formats a value: a \<open>str\<close> is itself.\<close>

definition py_str :: "env \<Rightarrow> json \<Rightarrow> pystr" where
  "py_str env v = (case v of JStr s \<Rightarrow> s | _ \<Rightarrow> str_other env v)"

text \<open>\<open>str(n)\<close> for a length: its decimal digits.\<close>

fun decimal :: "nat \<Rightarrow> pystr" where
  "decimal n = (if n < 10 then [48 + n] else decimal (n div 10) @ [48 + n mod 10])"

text \<open>\<open>print(f"[LINE Webhook] Error: {e}")\<close> (line 121). The message of a collaborator's
  exception is printed as it is; the messages of the other exceptions are ASCII, so
  printing them cannot raise.\<close>

definition print_error :: "env \<Rightarrow> exn \<Rightarrow> unit io" where
  "print_error env e =
     (case e of
        DownstreamError msg \<Rightarrow> py_print env (lit ''[LINE Webhook] Error: '' @ msg)
      | _ \<Rightarrow> io_return ())"

section \<open>Outbound transport (services/line_service.py)\<close>

definition api_base :: pystr where
  "api_base = lit ''https://api.line.me/v2/bot''"

text \<open>\<open>LineService._headers\<close>; the service object is its access token.\<close>

definition headers :: "pystr \<Rightarrow> (pystr \<times> pystr) list" where
  "headers channel_access_token =
     [(lit ''Authorization'', lit ''Bearer '' @ channel_access_token),
      (lit ''Content-Type'', lit ''application/json'')]"

definition reply_payload :: "json \<Rightarrow> json \<Rightarrow> json" where
  "reply_payload reply_token txt =
     JObj [(lit ''replyToken'', reply_token),
           (lit ''messages'', JArr [JObj [(lit ''type'', JStr (lit ''text'')),
                                          (lit ''text'', txt)]])]"

text \<open>\<open>LineService.reply_message\<close> (lines 23-41): one POST to the reply endpoint.\<close>

definition reply_message :: "env \<Rightarrow> pystr \<Rightarrow> json \<Rightarrow> json \<Rightarrow> json io" where
  "reply_message env channel_access_token reply_token txt w =
     (let url = api_base @ lit ''/message/reply'';
          payload = reply_payload reply_token txt
      in (outcome (http_post env w url (headers channel_access_token) payload),
          log_call (HttpPost url (headers channel_access_token) payload) w))"

section \<open>Conversation store and completion service\<close>

definition role_content :: "pystr \<Rightarrow> json \<Rightarrow> json" where
  "role_content r c = JObj [(lit ''role'', JStr r), (lit ''content'', c)]"

definition last_n :: "nat \<Rightarrow> 'a list \<Rightarrow> 'a list" where
  "last_n n xs = drop (length xs - n) xs"

text \<open>
  Modelled from the spec: \<open>app/database.py\<close> (\<open>get_line_conversation\<close>,
  \<open>save_line_message\<close>) is not among the sources. The spec's store keeps turns
  \<open>{userId, role, text}\<close> in insertion order; \<open>getRecentTurns(userId, limit)\<close> returns the
  most recent \<open>limit\<close> turns of that user, oldest first, as \<open>{role, content}\<close> entries,
  and does not change the store. The call may fail (store unreachable).
\<close>

definition get_line_conversation :: "env \<Rightarrow> json \<Rightarrow> nat \<Rightarrow> json list io" where
  "get_line_conversation env user_id limit w =
     (case db_read_error env w user_id of
        Some msg \<Rightarrow> Inl (DownstreamError msg)
      | None \<Rightarrow> Inr (map (\<lambda>t. role_content (t_role t) (t_content t))
                       (last_n limit (filter (\<lambda>t. t_user t = user_id) (store w)))),
      log_call (DbRead user_id limit) w)"

text \<open>
  Modelled from the spec: \<open>save_line_message\<close> of \<open>app/database.py\<close>, which is not among
  the sources, as the spec's \<open>appendTurn(userId, role, text)\<close>: the turn is appended after
  the stored ones; a failed call raises and stores nothing.
\<close>

definition save_line_message :: "env \<Rightarrow> json \<Rightarrow> pystr \<Rightarrow> json \<Rightarrow> unit io" where
  "save_line_message env user_id role txt w =
     (case db_write_error env w user_id role txt of
        Some msg \<Rightarrow> (Inl (DownstreamError msg), log_call (DbWrite user_id role txt) w)
      | None \<Rightarrow>
          (Inr (),
           log_call (DbWrite user_id role txt)
             (w\<lparr>store := store w @ [\<lparr>t_user = user_id, t_role = role, t_content = txt\<rparr>]\<rparr>)))"

text \<open>The call \<open>complete_once(messages, temperature=0.7, max_tokens=500)\<close>; the
  temperature is logged as the decimal \<open>7 * 10 ^ -1\<close>.\<close>

definition complete :: "env \<Rightarrow> json list \<Rightarrow> json io" where
  "complete env messages w =
     (outcome (complete_once env w messages), log_call (Complete messages (7, -1) 500) w)"

section \<open>The webhook (routers/line.py)\<close>

text \<open>The three Japanese literals of the source, as code points: the system prompt
  (line 101), the text used when the completion result has no \<open>content\<close> (line 112) and
  the apology sent from the exception handler (line 127).\<close>

definition system_prompt :: pystr where
  "system_prompt = [
      0x3042, 0x306a, 0x305f, 0x306f, 0x89aa, 0x5207, 0x306a, 0x41, 0x49, 0x30a2,
      0x30b7, 0x30b9, 0x30bf, 0x30f3, 0x30c8, 0x3067, 0x3059, 0x3002, 0x30e6, 0x30fc,
      0x30b6, 0x30fc, 0x306e, 0x8cea, 0x554f, 0x306b, 0x7c21, 0x6f54, 0x304b, 0x3064,
      0x4e01, 0x5be7, 0x306b, 0x7b54, 0x3048, 0x3066, 0x304f, 0x3060, 0x3055, 0x3044,
      0x3002]"

definition no_response_text :: pystr where
  "no_response_text = [
      0x7533, 0x3057, 0x8a33, 0x3054, 0x3056, 0x3044, 0x307e, 0x305b, 0x3093, 0x3002,
      0x5fdc, 0x7b54, 0x3092, 0x751f, 0x6210, 0x3067, 0x304d, 0x307e, 0x305b, 0x3093,
      0x3067, 0x3057, 0x305f, 0x3002]"

definition error_text :: pystr where
  "error_text = [
      0x7533, 0x3057, 0x8a33, 0x3054, 0x3056, 0x3044, 0x307e, 0x305b, 0x3093, 0x3002,
      0x30a8, 0x30e9, 0x30fc, 0x304c, 0x767a, 0x751f, 0x3057, 0x307e, 0x3057, 0x305f,
      0x3002, 0x3057, 0x3070, 0x3089, 0x304f, 0x3057, 0x3066, 0x304b, 0x3089, 0x3082,
      0x3046, 0x4e00, 0x5ea6, 0x304a, 0x8a66, 0x3057, 0x304f, 0x3060, 0x3055, 0x3044,
      0x3002]"

text \<open>\<open>get_user_conversation\<close> (lines 133-139): the read, then the \<open>print\<close> of line
  138, whose text holds the user id.\<close>

definition get_user_conversation :: "env \<Rightarrow> json \<Rightarrow> json list io" where
  "get_user_conversation env user_id =
     io_bind (get_line_conversation env user_id 10) (\<lambda>conversation_history.
     io_bind (py_print env (lit ''[LINE] Loaded '' @ decimal (length conversation_history)
                            @ lit '' messages for user '' @ py_str env user_id)) (\<lambda>u.
     io_return conversation_history))"

text \<open>\<open>save_user_message\<close> (lines 142-150): the user's turn, then the assistant's, then
  the \<open>print\<close> of line 150.\<close>

definition save_user_message :: "env \<Rightarrow> json \<Rightarrow> json \<Rightarrow> json \<Rightarrow> unit io" where
  "save_user_message env user_id user_message ai_response =
     io_bind (save_line_message env user_id (lit ''user'') user_message) (\<lambda>u.
     io_bind (save_line_message env user_id (lit ''assistant'') ai_response) (\<lambda>u'.
     py_print env (lit ''[LINE] Saved conversation for user '' @ py_str env user_id)))"

text \<open>The \<open>try\<close> block of \<open>handle_line_event\<close> (lines 93-118).\<close>

definition build_messages :: "json list \<Rightarrow> json \<Rightarrow> json list" where
  "build_messages conversation_history user_message =
     [role_content (lit ''system'') (JStr system_prompt)]
     @ conversation_history
     @ [role_content (lit ''user'') user_message]"

definition try_block :: "env \<Rightarrow> json \<Rightarrow> json \<Rightarrow> json \<Rightarrow> unit io" where
  "try_block env user_id reply_token user_message =
     io_bind (get_user_conversation env user_id) (\<lambda>conversation_history.
     io_bind (complete env (build_messages conversation_history user_message)) (\<lambda>result.
     io_bind (io_lift (py_get result (lit ''content'') (JStr no_response_text))) (\<lambda>ai_response.
     io_bind (save_user_message env user_id user_message ai_response) (\<lambda>u.
     io_bind (reply_message env (LINE_CHANNEL_ACCESS_TOKEN env) reply_token ai_response) (\<lambda>r.
     io_return ())))))"

text \<open>The \<open>except Exception as e\<close> block (lines 120-130): the \<open>print\<close> of the exception
  (line 121, outside the inner \<open>try\<close>), then one reply with the apology; the inner bare
  \<open>except: pass\<close> swallows the failure of that reply.\<close>

definition except_block :: "env \<Rightarrow> json \<Rightarrow> exn \<Rightarrow> unit io" where
  "except_block env reply_token e =
     io_bind (print_error env e) (\<lambda>u.
     io_catch
       (io_bind (reply_message env (LINE_CHANNEL_ACCESS_TOKEN env) reply_token (JStr error_text))
          (\<lambda>r. io_return ()))
       (\<lambda>e'. io_return ()))"

text \<open>\<open>handle_line_event\<close> (lines 72-130).\<close>

definition handle_line_event :: "env \<Rightarrow> json \<Rightarrow> unit io" where
  "handle_line_event env event =
     io_bind (io_lift (py_get event (lit ''type'') JNull)) (\<lambda>event_type.
     if event_type \<noteq> JStr (lit ''message'') then io_return () else
     io_bind (io_lift (py_get event (lit ''message'') (JObj []))) (\<lambda>message.
     io_bind (io_lift (py_get message (lit ''type'') JNull)) (\<lambda>message_type.
     if message_type \<noteq> JStr (lit ''text'') then io_return () else
     io_bind (io_lift (py_get event (lit ''source'') (JObj []))) (\<lambda>source.
     io_bind (io_lift (py_get source (lit ''userId'') JNull)) (\<lambda>user_id.
     io_bind (io_lift (py_get event (lit ''replyToken'') JNull)) (\<lambda>reply_token.
     io_bind (io_lift (py_get event (lit ''message'') (JObj []))) (\<lambda>message'.
     io_bind (io_lift (py_get message' (lit ''text'') (JStr []))) (\<lambda>user_message.
     if \<not> truthy user_id \<or> \<not> truthy reply_token \<or> \<not> truthy user_message
     then io_return ()
     else io_catch (try_block env user_id reply_token user_message)
            (\<lambda>e. except_block env reply_token e)))))))))"

text \<open>\<open>line_webhook\<close> (lines 45-69). The header is \<open>None\<close> when absent.\<close>

definition header_truthy :: "pystr option \<Rightarrow> bool" where
  "header_truthy h = (case h of None \<Rightarrow> False | Some s \<Rightarrow> s \<noteq> [])"

definition status_ok :: json where
  "status_ok = JObj [(lit ''status'', JStr (lit ''ok''))]"

definition line_webhook :: "env \<Rightarrow> pybytes \<Rightarrow> pystr option \<Rightarrow> json io" where
  "line_webhook env body x_line_signature =
     io_bind
       (if header_truthy x_line_signature
        then io_bind (io_lift (verify_signature env body x_line_signature)) (\<lambda>valid.
               if \<not> valid then io_raise (HTTPException 400 (lit ''Invalid signature''))
               else io_return ())
        else io_return ()) (\<lambda>u.
     io_bind
       (case json_loads env body of
          Inl e \<Rightarrow> if e = JSONDecodeError then io_raise (HTTPException 400 (lit ''Invalid JSON''))
                   else io_raise e
        | Inr data \<Rightarrow> io_return data) (\<lambda>data.
     io_bind (io_lift (py_get data (lit ''events'') (JArr []))) (\<lambda>events.
     io_bind (io_lift (py_iter events)) (\<lambda>event_list.
     io_bind (for_each (handle_line_event env) event_list) (\<lambda>u'.
     io_return status_ok)))))"

text \<open>What the framework (FastAPI) sends for the handler's outcome: the returned
  value with status 200, an \<open>HTTPException\<close> with its own status and detail, and
  status 500 for any other exception.\<close>

fun http_response :: "exn + json \<Rightarrow> nat \<times> json" where
  "http_response (Inr v) = (200, v)"
| "http_response (Inl (HTTPException status detail)) =
     (status, JObj [(lit ''detail'', JStr detail)])"
| "http_response (Inl e) = (500, JStr (lit ''Internal Server Error''))"

section \<open>Vocabulary of the properties\<close>

fun is_dict :: "json \<Rightarrow> bool" where
  "is_dict (JObj kvs) = True"
| "is_dict _ = False"

text \<open>The value of \<open>v.get(k, d)\<close> where \<open>v\<close> is a \<open>dict\<close> (and \<open>None\<close> for the
  values on which the call raises).\<close>

definition get_or :: "json \<Rightarrow> pystr \<Rightarrow> json \<Rightarrow> json" where
  "get_or v k d = (case py_get v k d of Inr x \<Rightarrow> x | Inl e \<Rightarrow> JNull)"

text \<open>The fields \<open>handle_line_event\<close> reads (lines 76-88), under the names of its
  local variables.\<close>

definition ev_type :: "json \<Rightarrow> json" where
  "ev_type event = get_or event (lit ''type'') JNull"

definition ev_message_type :: "json \<Rightarrow> json" where
  "ev_message_type event = get_or (get_or event (lit ''message'') (JObj [])) (lit ''type'') JNull"

definition ev_user_id :: "json \<Rightarrow> json" where
  "ev_user_id event = get_or (get_or event (lit ''source'') (JObj [])) (lit ''userId'') JNull"

definition ev_reply_token :: "json \<Rightarrow> json" where
  "ev_reply_token event = get_or event (lit ''replyToken'') JNull"

definition ev_user_message :: "json \<Rightarrow> json" where
  "ev_user_message event = get_or (get_or event (lit ''message'') (JObj [])) (lit ''text'') (JStr [])"

text \<open>An event of the platform's shape: an object whose \<open>message\<close> and \<open>source\<close>
  entries, when present, are objects.\<close>

definition event_ok :: "json \<Rightarrow> bool" where
  "event_ok event =
     (is_dict event \<and> is_dict (get_or event (lit ''message'') (JObj []))
      \<and> is_dict (get_or event (lit ''source'') (JObj [])))"

text \<open>An actionable event: a text message with a non-empty user id, reply token and
  text.\<close>

definition actionable :: "json \<Rightarrow> bool" where
  "actionable event =
     (event_ok event \<and> ev_type event = JStr (lit ''message'')
      \<and> ev_message_type event = JStr (lit ''text'')
      \<and> truthy (ev_user_id event) \<and> truthy (ev_reply_token event)
      \<and> truthy (ev_user_message event))"



text \<open>The \<open>print\<close> of line 121 does not raise on this exception.\<close>

definition error_printable :: "env \<Rightarrow> exn \<Rightarrow> bool" where
  "error_printable env e = (case e of DownstreamError msg \<Rightarrow> encodable env msg | _ \<Rightarrow> True)"

text \<open>Every message of an exception a collaborator raises can be encoded for stdout.\<close>

definition failures_printable :: "env \<Rightarrow> bool" where
  "failures_printable env =
     ((\<forall>w ms msg. complete_once env w ms = Inl msg \<longrightarrow> encodable env msg) \<and>
      (\<forall>w u msg. db_read_error env w u = Some msg \<longrightarrow> encodable env msg) \<and>
      (\<forall>w u r t msg. db_write_error env w u r t = Some msg \<longrightarrow> encodable env msg) \<and>
      (\<forall>w url hs p msg. http_post env w url hs p = Inl msg \<longrightarrow> encodable env msg))"

text \<open>The signature gate of \<open>line_webhook\<close> (line 57) lets the request through.\<close>

definition passes_gate :: "env \<Rightarrow> pybytes \<Rightarrow> pystr option \<Rightarrow> bool" where
  "passes_gate env body x_line_signature =
     (\<not> header_truthy x_line_signature \<or> verify_signature env body x_line_signature = Inr True)"

text \<open>Lines 60-69 of \<open>line_webhook\<close>: what follows the signature gate.\<close>

definition parse_and_dispatch :: "env \<Rightarrow> pybytes \<Rightarrow> json io" where
  "parse_and_dispatch env body =
     io_bind
       (case json_loads env body of
          Inl e \<Rightarrow> if e = JSONDecodeError then io_raise (HTTPException 400 (lit ''Invalid JSON''))
                   else io_raise e
        | Inr data \<Rightarrow> io_return data) (\<lambda>data.
     io_bind (io_lift (py_get data (lit ''events'') (JArr []))) (\<lambda>events.
     io_bind (io_lift (py_iter events)) (\<lambda>event_list.
     io_bind (for_each (handle_line_event env) event_list) (\<lambda>u'.
     io_return status_ok))))"

text \<open>Lines 98-115 of the \<open>try\<close> block: everything before the reply is sent; the
  value is \<open>ai_response\<close>.\<close>

definition prepare_reply :: "env \<Rightarrow> json \<Rightarrow> json \<Rightarrow> json io" where
  "prepare_reply env user_id user_message =
     io_bind (get_user_conversation env user_id) (\<lambda>conversation_history.
     io_bind (complete env (build_messages conversation_history user_message)) (\<lambda>result.
     io_bind (io_lift (py_get result (lit ''content'') (JStr no_response_text))) (\<lambda>ai_response.
     io_bind (save_user_message env user_id user_message ai_response) (\<lambda>u.
     io_return ai_response))))"

text \<open>The conversation window of a user: the last 10 of the user's stored turns, oldest
  first, as \<open>{role, content}\<close> entries.\<close>

definition conversation_window :: "world \<Rightarrow> json \<Rightarrow> json list" where
  "conversation_window w user_id =
     map (\<lambda>t. role_content (t_role t) (t_content t))
       (last_n 10 (filter (\<lambda>t. t_user t = user_id) (store w)))"

text \<open>Reading the call log: the reply token and the text of a POST to the reply
  endpoint, and the replies among a list of calls.\<close>

definition reply_url :: pystr where
  "reply_url = api_base @ lit ''/message/reply''"

definition reply_text_of :: "json \<Rightarrow> json option" where
  "reply_text_of payload =
     (case get_or payload (lit ''messages'') JNull of
        JArr [m] \<Rightarrow> (case py_get m (lit ''text'') JNull of Inr t \<Rightarrow> Some t | Inl e \<Rightarrow> None)
      | _ \<Rightarrow> None)"

fun reply_of :: "call \<Rightarrow> (json \<times> json) option" where
  "reply_of (HttpPost url hs payload) =
     (if url = reply_url
      then (case reply_text_of payload of
              Some t \<Rightarrow> Some (get_or payload (lit ''replyToken'') JNull, t)
            | None \<Rightarrow> None)
      else None)"
| "reply_of _ = None"

definition replies :: "call list \<Rightarrow> (json \<times> json) list" where
  "replies cs = List.map_filter reply_of cs"

text \<open>The calls made between an earlier world and a later one.\<close>

definition new_calls :: "world \<Rightarrow> world \<Rightarrow> call list" where
  "new_calls w w' = drop (length (calls w)) (calls w')"

definition event_calls :: "env \<Rightarrow> json \<Rightarrow> world \<Rightarrow> call list" where
  "event_calls env event w = new_calls w (snd (handle_line_event env event w))"

text \<open>The calls of each event of a batch, in list order: every event is handled in the
  world its predecessor left, and an event that raises ends the batch.\<close>

fun batch_calls :: "env \<Rightarrow> json list \<Rightarrow> world \<Rightarrow> call list list" where
  "batch_calls env [] w = []"
| "batch_calls env (e # es) w =
     event_calls env e w #
     (case handle_line_event env e w of
        (Inl x, w') \<Rightarrow> []
      | (Inr u, w') \<Rightarrow> batch_calls env es w')"

text \<open>The signature the platform sends for a body: the spec's \<open>hmac_b64(B, S)\<close>, with
  \<open>S\<close> the configured secret.\<close>

definition hmac_b64 :: "env \<Rightarrow> pybytes \<Rightarrow> pystr" where
  "hmac_b64 env body = b64encode (hmac_sha256 env (LINE_CHANNEL_SECRET env) body)"

text \<open>A step only adds to the call log, and adds only calls of one kind.\<close>

definition appends_all :: "(call \<Rightarrow> bool) \<Rightarrow> 'a io \<Rightarrow> bool" where
  "appends_all P m = (\<forall>w. \<exists>cs. calls (snd (m w)) = calls w @ cs \<and> list_all P cs)"


section \<open>Example inputs\<close>

definition w0 :: world where
  "w0 = \<lparr>store = [], calls = []\<rparr>"

definition ex_event :: json where
  "ex_event =
     JObj [(lit ''type'', JStr (lit ''message'')),
           (lit ''replyToken'', JStr (lit ''t1'')),
           (lit ''source'', JObj [(lit ''userId'', JStr (lit ''u1''))]),
           (lit ''message'', JObj [(lit ''type'', JStr (lit ''text'')),
                                   (lit ''text'', JStr (lit ''hi''))])]"

definition ex_envelope :: json where
  "ex_envelope = JObj [(lit ''events'', JArr [ex_event])]"

text \<open>The bytes of the envelope's JSON text, and of the JSON text \<open>[]\<close>.\<close>

definition ex_body :: pybytes where
  "ex_body = [
      0x7b, 0x22, 0x65, 0x76, 0x65, 0x6e, 0x74, 0x73, 0x22, 0x3a, 0x5b, 0x7b,
      0x22, 0x74, 0x79, 0x70, 0x65, 0x22, 0x3a, 0x22, 0x6d, 0x65, 0x73, 0x73,
      0x61, 0x67, 0x65, 0x22, 0x2c, 0x22, 0x72, 0x65, 0x70, 0x6c, 0x79, 0x54,
      0x6f, 0x6b, 0x65, 0x6e, 0x22, 0x3a, 0x22, 0x74, 0x31, 0x22, 0x2c, 0x22,
      0x73, 0x6f, 0x75, 0x72, 0x63, 0x65, 0x22, 0x3a, 0x7b, 0x22, 0x75, 0x73,
      0x65, 0x72, 0x49, 0x64, 0x22, 0x3a, 0x22, 0x75, 0x31, 0x22, 0x7d, 0x2c,
      0x22, 0x6d, 0x65, 0x73, 0x73, 0x61, 0x67, 0x65, 0x22, 0x3a, 0x7b, 0x22,
      0x74, 0x79, 0x70, 0x65, 0x22, 0x3a, 0x22, 0x74, 0x65, 0x78, 0x74, 0x22,
      0x2c, 0x22, 0x74, 0x65, 0x78, 0x74, 0x22, 0x3a, 0x22, 0x68, 0x69, 0x22,
      0x7d, 0x7d, 0x5d, 0x7d]"

definition ex_body_array :: pybytes where
  "ex_body_array = [0x5b, 0x5d]"

text \<open>A second actionable event, and the envelope of the two events with the bytes of
  its JSON text.\<close>

definition ex_event_second :: json where
  "ex_event_second =
     JObj [(lit ''type'', JStr (lit ''message'')),
           (lit ''replyToken'', JStr (lit ''t9'')),
           (lit ''source'', JObj [(lit ''userId'', JStr (lit ''u9''))]),
           (lit ''message'', JObj [(lit ''type'', JStr (lit ''text'')),
                                   (lit ''text'', JStr (lit ''yo''))])]"

definition ex_envelope_two :: json where
  "ex_envelope_two = JObj [(lit ''events'', JArr [ex_event, ex_event_second])]"

definition ex_body_two :: pybytes where
  "ex_body_two = [
      0x7b, 0x22, 0x65, 0x76, 0x65, 0x6e, 0x74, 0x73, 0x22, 0x3a, 0x5b, 0x7b,
      0x22, 0x74, 0x79, 0x70, 0x65, 0x22, 0x3a, 0x22, 0x6d, 0x65, 0x73, 0x73,
      0x61, 0x67, 0x65, 0x22, 0x2c, 0x22, 0x72, 0x65, 0x70, 0x6c, 0x79, 0x54,
      0x6f, 0x6b, 0x65, 0x6e, 0x22, 0x3a, 0x22, 0x74, 0x31, 0x22, 0x2c, 0x22,
      0x73, 0x6f, 0x75, 0x72, 0x63, 0x65, 0x22, 0x3a, 0x7b, 0x22, 0x75, 0x73,
      0x65, 0x72, 0x49, 0x64, 0x22, 0x3a, 0x22, 0x75, 0x31, 0x22, 0x7d, 0x2c,
      0x22, 0x6d, 0x65, 0x73, 0x73, 0x61, 0x67, 0x65, 0x22, 0x3a, 0x7b, 0x22,
      0x74, 0x79, 0x70, 0x65, 0x22, 0x3a, 0x22, 0x74, 0x65, 0x78, 0x74, 0x22,
      0x2c, 0x22, 0x74, 0x65, 0x78, 0x74, 0x22, 0x3a, 0x22, 0x68, 0x69, 0x22,
      0x7d, 0x7d, 0x2c, 0x7b, 0x22, 0x74, 0x79, 0x70, 0x65, 0x22, 0x3a, 0x22,
      0x6d, 0x65, 0x73, 0x73, 0x61, 0x67, 0x65, 0x22, 0x2c, 0x22, 0x72, 0x65,
      0x70, 0x6c, 0x79, 0x54, 0x6f, 0x6b, 0x65, 0x6e, 0x22, 0x3a, 0x22, 0x74,
      0x39, 0x22, 0x2c, 0x22, 0x73, 0x6f, 0x75, 0x72, 0x63, 0x65, 0x22, 0x3a,
      0x7b, 0x22, 0x75, 0x73, 0x65, 0x72, 0x49, 0x64, 0x22, 0x3a, 0x22, 0x75,
      0x39, 0x22, 0x7d, 0x2c, 0x22, 0x6d, 0x65, 0x73, 0x73, 0x61, 0x67, 0x65,
      0x22, 0x3a, 0x7b, 0x22, 0x74, 0x79, 0x70, 0x65, 0x22, 0x3a, 0x22, 0x74,
      0x65, 0x78, 0x74, 0x22, 0x2c, 0x22, 0x74, 0x65, 0x78, 0x74, 0x22, 0x3a,
      0x22, 0x79, 0x6f, 0x22, 0x7d, 0x7d, 0x5d, 0x7d]"

text \<open>\<open>json.loads\<close> on the example bodies.\<close>

definition ex_loads :: "pybytes \<Rightarrow> exn + json" where
  "ex_loads b =
     (if b = ex_body then Inr ex_envelope
      else if b = ex_body_two then Inr ex_envelope_two
      else if b = ex_body_array then Inr (JArr [])
      else Inl JSONDecodeError)"

text \<open>A stand-in for the keyed digest (32 bytes); no example depends on its values.\<close>

definition ex_hmac :: "pystr \<Rightarrow> pybytes \<Rightarrow> pybytes" where
  "ex_hmac key body = take 32 (map of_nat key @ body @ replicate 32 0)"

text \<open>An environment in which every collaborator succeeds and stdout is UTF-8, which
  encodes every character but the surrogates. No example formats a value that is not a
  \<open>str\<close>.\<close>

definition ex_env :: env where
  "ex_env =
     \<lparr>LINE_CHANNEL_SECRET = lit ''secret'',
      LINE_CHANNEL_ACCESS_TOKEN = lit ''token'',
      hmac_sha256 = ex_hmac,
      json_loads = ex_loads,
      complete_once = (\<lambda>w ms. Inr (JObj [(lit ''content'', JStr (lit ''hello''))])),
      db_read_error = (\<lambda>w u. None),
      db_write_error = (\<lambda>w u r t. None),
      http_post = (\<lambda>w url hs p. Inr (JObj [])),
      stdout_encodes = (\<lambda>c. \<not> (0xD800 \<le> c \<and> c \<le> 0xDFFF)),
      str_other = (\<lambda>v. [])\<rparr>"

text \<open>Environments in which a collaborator fails: the transport at every call; the
  completion service at every call, with a lone surrogate as the message of its exception,
  which UTF-8 cannot encode; the store at every write of an assistant's turn, with the same
  message.\<close>

definition ex_env_no_secret :: env where
  "ex_env_no_secret = ex_env\<lparr>LINE_CHANNEL_SECRET := []\<rparr>"

definition ex_env_transport_fails :: env where
  "ex_env_transport_fails = ex_env\<lparr>http_post := (\<lambda>w url hs p. Inl (lit ''status 400''))\<rparr>"

definition ex_env_completion_unprintable :: env where
  "ex_env_completion_unprintable = ex_env\<lparr>complete_once := (\<lambda>w ms. Inl [0xD800])\<rparr>"

definition ex_env_assistant_write_unprintable :: env where
  "ex_env_assistant_write_unprintable =
     ex_env\<lparr>db_write_error :=
              (\<lambda>w u r t. if r = lit ''assistant'' then Some [0xD800] else None)\<rparr>"

text \<open>An event whose \<open>message\<close> entry is a string, and one of another type.\<close>

definition ex_event_bad_message :: json where
  "ex_event_bad_message =
     JObj [(lit ''type'', JStr (lit ''message'')), (lit ''message'', JStr (lit ''hi''))]"

definition ex_event_follow :: json where
  "ex_event_follow =
     JObj [(lit ''type'', JStr (lit ''follow'')), (lit ''replyToken'', JStr (lit ''t2''))]"

definition ex_event_image :: json where
  "ex_event_image =
     JObj [(lit ''type'', JStr (lit ''message'')),
           (lit ''replyToken'', JStr (lit ''t3'')),
           (lit ''source'', JObj [(lit ''userId'', JStr (lit ''u1''))]),
           (lit ''message'', JObj [(lit ''type'', JStr (lit ''image''))])]"

definition ex_event_no_user :: json where
  "ex_event_no_user =
     JObj [(lit ''type'', JStr (lit ''message'')),
           (lit ''replyToken'', JStr (lit ''t4'')),
           (lit ''message'', JObj [(lit ''type'', JStr (lit ''text'')),
                                   (lit ''text'', JStr (lit ''hi''))])]"


section \<open>Basic facts\<close>

lemma lit_eq_iff [simp]: "lit a = lit b \<longleftrightarrow> a = b"
  by (simp add: lit_def inj_map_eq_map inj_def)

lemma io_bind_Inr [simp]: "io_bind (Pair (Inr x)) f = f x"
  by (rule ext) (simp add: io_bind_def)

lemma io_bind_Inl [simp]: "io_bind (Pair (Inl e)) f = Pair (Inl e)"
  by (rule ext) (simp add: io_bind_def)

lemma io_catch_Inr [simp]: "io_catch (Pair (Inr x)) h = Pair (Inr x)"
  by (rule ext) (simp add: io_catch_def)

lemma io_catch_Inl [simp]: "io_catch (Pair (Inl e)) h = h e"
  by (rule ext) (simp add: io_catch_def)

lemma io_return_Pair: "io_return x = Pair (Inr x)"
  by (rule ext) (simp add: io_return_def)

lemma io_raise_Pair: "io_raise e = Pair (Inl e)"
  by (rule ext) (simp add: io_raise_def)

lemma io_lift_Pair: "io_lift r = Pair r"
  by (rule ext) (simp add: io_lift_def)

lemmas io_defs = io_return_Pair io_raise_Pair io_lift_Pair

lemma py_get_dict: "is_dict v \<Longrightarrow> py_get v k d = Inr (get_or v k d)"
  by (cases v) (simp_all add: get_or_def)

lemma calls_log_call [simp]: "calls (log_call c w) = calls w @ [c]"
  by (simp add: log_call_def)

lemma store_log_call [simp]: "store (log_call c w) = store w"
  by (simp add: log_call_def)

lemma new_calls_append: "calls w' = calls w @ cs \<Longrightarrow> new_calls w w' = cs"
  by (simp add: new_calls_def)

section \<open>Signature verification: properties\<close>

lemma b64_alphabet_ascii: "list_all (\<lambda>c. c < 128) b64_alphabet"
  by (simp add: b64_alphabet_def lit_def)

lemma length_b64_alphabet: "length b64_alphabet = 64"
  by (simp add: b64_alphabet_def lit_def)

lemma b64_char_ascii: "b64_char i < 128"
proof -
  have "i mod 64 < length b64_alphabet" by (simp add: length_b64_alphabet)
  then have "b64_alphabet ! (i mod 64) \<in> set b64_alphabet" by (rule nth_mem)
  with b64_alphabet_ascii show ?thesis by (simp add: b64_char_def list_all_iff)
qed

lemma b64encode_ascii: "is_ascii (b64encode bs)"
  by (induction bs rule: b64encode.induct)
     (simp_all add: is_ascii_def b64_char_ascii b64_pad_def Let_def)

lemma is_ascii_append: "is_ascii (a @ b) \<longleftrightarrow> is_ascii a \<and> is_ascii b"
  by (simp add: is_ascii_def)

lemma is_ascii_lit_x: "is_ascii (lit ''x'')"
  by (simp add: is_ascii_def lit_def)

text \<open>
  Claim C3, amended. For every body and every configured secret, verification accepts
  the base64 HMAC-SHA256 signature of the body; and when the secret is not empty it
  rejects that signature with \<open>x\<close> appended. (With an empty secret verification is
  skipped, so the altered signature is accepted too.)
\<close>

theorem verify_signature_roundtrip:
  "verify_signature env body (Some (hmac_b64 env body)) = Inr True \<and>
   (LINE_CHANNEL_SECRET env \<noteq> [] \<longrightarrow>
      verify_signature env body (Some (hmac_b64 env body @ lit ''x'')) = Inr False)"
proof -
  have "lit ''x'' \<noteq> []" by (simp add: lit_def)
  then show ?thesis
    by (simp add: verify_signature_def hmac_b64_def compare_digest_def b64encode_ascii
        is_ascii_append is_ascii_lit_x)
qed

theorem verify_signature_roundtrip_witness:
  "verify_signature ex_env ex_body (Some (hmac_b64 ex_env ex_body)) = Inr True \<and>
   verify_signature ex_env ex_body (Some (hmac_b64 ex_env ex_body @ lit ''x'')) = Inr False"
  using verify_signature_roundtrip [of ex_env ex_body]
  by (simp add: ex_env_def lit_def)

text \<open>
  Claim C3 as stated fails for the empty secret: the signature with \<open>x\<close> appended is
  accepted.
\<close>

theorem empty_secret_accepts_altered_signature:
  "verify_signature ex_env_no_secret ex_body
     (Some (hmac_b64 ex_env_no_secret ex_body @ lit ''x'')) = Inr True"
  by (simp add: verify_signature_def ex_env_no_secret_def)

text \<open>
  Claim C8. For every body and every signature value, verification returns true when
  the configured secret is empty or the signature header is absent, and the webhook
  then goes on to parsing and dispatch: it does exactly what lines 60-69 do.
\<close>

theorem verification_skipped:
  assumes "LINE_CHANNEL_SECRET env = [] \<or> x_line_signature = None"
  shows "verify_signature env body x_line_signature = Inr True \<and>
         line_webhook env body x_line_signature w = parse_and_dispatch env body w"
proof -
  have v: "verify_signature env body x_line_signature = Inr True"
    using assms by (auto simp add: verify_signature_def split: option.splits)
  have "line_webhook env body x_line_signature w = parse_and_dispatch env body w"
    by (simp add: line_webhook_def parse_and_dispatch_def v io_defs)
  with v show ?thesis by simp
qed

theorem verification_skipped_witness:
  "verify_signature ex_env_no_secret ex_body (Some (lit ''abc'')) = Inr True \<and>
   line_webhook ex_env_no_secret ex_body (Some (lit ''abc'')) w0
     = parse_and_dispatch ex_env_no_secret ex_body w0"
  using verification_skipped [of ex_env_no_secret "Some (lit ''abc'')" ex_body w0]
  by (simp add: ex_env_no_secret_def)

text \<open>
  Claim C4 at a failing input. The secret is configured and the signature header is the
  one character U+00E9: \<open>hmac.compare_digest\<close> raises \<open>TypeError\<close>, which nothing
  catches, so the answer is status 500 and not 400. No collaborator is called.
\<close>

theorem non_ascii_signature_is_a_server_error:
  "line_webhook ex_env ex_body (Some [0xe9]) w0 = (Inl TypeError, w0) \<and>
   http_response (Inl TypeError) = (500, JStr (lit ''Internal Server Error''))"
  by (simp add: line_webhook_def header_truthy_def verify_signature_def compare_digest_def
      is_ascii_def ex_env_def lit_def io_defs)

lemma invalid_signature_rejected:
  assumes "header_truthy x_line_signature"
    and "verify_signature env body x_line_signature = Inr False"
  shows "line_webhook env body x_line_signature w
           = (Inl (HTTPException 400 (lit ''Invalid signature'')), w)"
  using assms by (simp add: line_webhook_def io_defs)

lemma gate_failure_no_effects:
  assumes "\<not> passes_gate env body x_line_signature"
  shows "snd (line_webhook env body x_line_signature w) = w"
  using assms
  by (cases "verify_signature env body x_line_signature")
     (auto simp add: passes_gate_def line_webhook_def io_defs)


section \<open>The event filter: properties\<close>

lemmas ev_defs = ev_type_def ev_message_type_def ev_user_id_def ev_reply_token_def
  ev_user_message_def

lemma handle_not_message:
  assumes "is_dict event" "ev_type event \<noteq> JStr (lit ''message'')"
  shows "handle_line_event env event w = (Inr (), w)"
  using assms by (simp add: handle_line_event_def py_get_dict io_defs ev_defs)

lemma handle_not_text:
  assumes "is_dict event" "is_dict (get_or event (lit ''message'') (JObj []))"
    "ev_message_type event \<noteq> JStr (lit ''text'')"
  shows "handle_line_event env event w = (Inr (), w)"
  using assms by (simp add: handle_line_event_def py_get_dict io_defs ev_defs)

lemma handle_missing_field:
  assumes "event_ok event"
    "\<not> truthy (ev_user_id event) \<or> \<not> truthy (ev_reply_token event)
     \<or> \<not> truthy (ev_user_message event)"
  shows "handle_line_event env event w = (Inr (), w)"
  using assms by (auto simp add: handle_line_event_def event_ok_def py_get_dict io_defs ev_defs)


lemma handle_actionable:
  assumes "actionable event"
  shows "handle_line_event env event =
         io_catch (try_block env (ev_user_id event) (ev_reply_token event) (ev_user_message event))
           (except_block env (ev_reply_token event))"
  using assms
  by (simp add: handle_line_event_def event_ok_def actionable_def py_get_dict io_defs ev_defs)

text \<open>
  Claim C6, amended. An event object is dropped, with no call to the store, the
  completion service or the transport and with no exception, when its type is not
  \<open>message\<close>; or when its \<open>message\<close> entry is absent or an object and the message type is
  not \<open>text\<close>; or when its \<open>message\<close> and \<open>source\<close> entries are absent or objects and
  the user id, the reply token or the text is missing or empty.
\<close>

theorem ignored_events_dropped:
  "(is_dict event \<and> ev_type event \<noteq> JStr (lit ''message'')
      \<longrightarrow> handle_line_event env event w = (Inr (), w)) \<and>
   (is_dict event \<and> is_dict (get_or event (lit ''message'') (JObj []))
      \<and> ev_message_type event \<noteq> JStr (lit ''text'')
      \<longrightarrow> handle_line_event env event w = (Inr (), w)) \<and>
   (event_ok event
      \<and> (\<not> truthy (ev_user_id event) \<or> \<not> truthy (ev_reply_token event)
           \<or> \<not> truthy (ev_user_message event))
      \<longrightarrow> handle_line_event env event w = (Inr (), w))"
  using handle_not_message [of event env w] handle_not_text [of event env w]
    handle_missing_field [of event env w]
  by blast

theorem ignored_events_dropped_witness:
  "handle_line_event ex_env ex_event_follow w0 = (Inr (), w0) \<and>
   handle_line_event ex_env ex_event_image w0 = (Inr (), w0) \<and>
   handle_line_event ex_env ex_event_no_user w0 = (Inr (), w0)"
  using ignored_events_dropped [of ex_event_follow ex_env w0]
    ignored_events_dropped [of ex_event_image ex_env w0]
    ignored_events_dropped [of ex_event_no_user ex_env w0]
  by (simp add: ex_event_follow_def ex_event_image_def ex_event_no_user_def event_ok_def
      get_or_def ev_defs)

text \<open>
  Claim C6 as stated fails: an event of type \<open>message\<close> whose \<open>message\<close> entry is a
  string has no message type \<open>text\<close>, and handling it raises \<open>AttributeError\<close>.
\<close>

theorem non_dict_message_raises:
  "handle_line_event ex_env ex_event_bad_message w0 = (Inl AttributeError, w0)"
  by (simp add: handle_line_event_def ex_event_bad_message_def io_defs)

section \<open>Diagnostic output: facts\<close>

declare decimal.simps [simp del]

lemma encodable_append [simp]:
  "encodable env (a @ b) \<longleftrightarrow> encodable env a \<and> encodable env b"
  by (simp add: encodable_def)

lemma encodable_ascii: "is_ascii s \<Longrightarrow> encodable env s"
  by (induction s) (simp_all add: is_ascii_def encodable_def)

lemma is_ascii_decimal: "is_ascii (decimal n)"
proof (induction n rule: decimal.induct)
  case (1 n)
  show ?case
  proof (cases "n < 10")
    case True
    then show ?thesis by (subst decimal.simps) (simp add: is_ascii_def)
  next
    case False
    have "n mod 10 < 10" by simp
    then have "48 + n mod 10 < 128" by linarith
    with False 1 show ?thesis by (subst decimal.simps) (simp add: is_ascii_def)
  qed
qed

lemma encodable_prefixes [simp]:
  "encodable env (lit ''[LINE Webhook] Error: '')"
  "encodable env (lit ''[LINE] Loaded '')"
  "encodable env (lit '' messages for user '')"
  "encodable env (lit ''[LINE] Saved conversation for user '')"
  by (simp_all add: encodable_def lit_def)

lemma encodable_decimal [simp]: "encodable env (decimal n)"
  by (simp add: encodable_ascii is_ascii_decimal)

lemma py_print_eq:
  "py_print env s = (if encodable env s then Pair (Inr ()) else Pair (Inl UnicodeEncodeError))"
  by (simp add: py_print_def io_defs)

lemma print_error_eq:
  "print_error env e =
     (if error_printable env e then Pair (Inr ()) else Pair (Inl UnicodeEncodeError))"
  by (cases e) (simp_all add: print_error_def error_printable_def py_print_eq io_defs)

section \<open>Primitive steps\<close>

lemma outcome_simps [simp]:
  "outcome (Inl msg) = Inl (DownstreamError msg)" "outcome (Inr x) = Inr x"
  by (simp_all add: outcome_def)

lemma reply_message_eq:
  "reply_message env t reply_token txt w =
     (outcome (http_post env w reply_url (headers t) (reply_payload reply_token txt)),
      log_call (HttpPost reply_url (headers t) (reply_payload reply_token txt)) w)"
  by (simp add: reply_message_def reply_url_def Let_def)

lemma except_block_eq:
  "except_block env reply_token e w =
     (if error_printable env e
      then (Inr (), log_call (HttpPost reply_url (headers (LINE_CHANNEL_ACCESS_TOKEN env))
                                (reply_payload reply_token (JStr error_text))) w)
      else (Inl UnicodeEncodeError, w))"
  by (simp add: except_block_def print_error_eq io_catch_def io_bind_def reply_message_eq io_defs
      split: sum.splits)

lemma get_user_conversation_eq:
  "get_user_conversation env user_id w =
     (case db_read_error env w user_id of
        Some msg \<Rightarrow> Inl (DownstreamError msg)
      | None \<Rightarrow> if encodable env (py_str env user_id)
                then Inr (conversation_window w user_id) else Inl UnicodeEncodeError,
      log_call (DbRead user_id 10) w)"
  by (simp add: get_user_conversation_def get_line_conversation_def conversation_window_def
      io_bind_def py_print_eq io_defs split: option.splits)

lemma complete_eq:
  "complete env messages w =
     (outcome (complete_once env w messages), log_call (Complete messages (7, -1) 500) w)"
  by (simp add: complete_def)

lemma save_line_message_eq:
  "save_line_message env user_id role txt w =
     (case db_write_error env w user_id role txt of
        Some msg \<Rightarrow> (Inl (DownstreamError msg), log_call (DbWrite user_id role txt) w)
      | None \<Rightarrow>
          (Inr (),
           log_call (DbWrite user_id role txt)
             (w\<lparr>store := store w @ [\<lparr>t_user = user_id, t_role = role, t_content = txt\<rparr>]\<rparr>)))"
  by (simp add: save_line_message_def)

lemma reply_of_reply [simp]:
  "reply_of (HttpPost reply_url hs (reply_payload reply_token txt)) = Some (reply_token, txt)"
  by (simp add: reply_payload_def reply_text_of_def get_or_def)

declare reply_of.simps(1) [simp del]

lemma replies_append [simp]: "replies (cs @ ds) = replies cs @ replies ds"
  by (simp add: replies_def List.map_filter_def)

lemma replies_Nil [simp]: "replies [] = []"
  by (simp add: replies_def)

lemma replies_Cons [simp]:
  "replies (c # cs) = (case reply_of c of None \<Rightarrow> replies cs | Some r \<Rightarrow> r # replies cs)"
  by (simp add: replies_def split: option.splits)

section \<open>The call log only grows\<close>

lemma appends_all_Pair [simp]: "appends_all P (Pair r)"
  by (simp add: appends_all_def)

lemma appends_all_bind:
  assumes "appends_all P m" "\<And>x. appends_all P (f x)"
  shows "appends_all P (io_bind m f)"
  unfolding appends_all_def
proof
  fix w
  obtain r w' where mw: "m w = (r, w')" by (cases "m w")
  from assms(1) mw obtain cs where cs: "calls w' = calls w @ cs" "list_all P cs"
    unfolding appends_all_def by (metis snd_conv)
  show "\<exists>cs. calls (snd (io_bind m f w)) = calls w @ cs \<and> list_all P cs"
  proof (cases r)
    case (Inl e)
    with mw cs show ?thesis by (simp add: io_bind_def)
  next
    case (Inr x)
    from assms(2) obtain ds where "calls (snd (f x w')) = calls w' @ ds" "list_all P ds"
      unfolding appends_all_def by blast
    with Inr mw cs show ?thesis by (simp add: io_bind_def)
  qed
qed

lemma appends_all_catch:
  assumes "appends_all P m" "\<And>e. appends_all P (h e)"
  shows "appends_all P (io_catch m h)"
  unfolding appends_all_def
proof
  fix w
  obtain r w' where mw: "m w = (r, w')" by (cases "m w")
  from assms(1) mw obtain cs where cs: "calls w' = calls w @ cs" "list_all P cs"
    unfolding appends_all_def by (metis snd_conv)
  show "\<exists>cs. calls (snd (io_catch m h w)) = calls w @ cs \<and> list_all P cs"
  proof (cases r)
    case (Inl e)
    from assms(2) obtain ds where "calls (snd (h e w')) = calls w' @ ds" "list_all P ds"
      unfolding appends_all_def by blast
    with Inl mw cs show ?thesis by (simp add: io_catch_def)
  next
    case (Inr x)
    with mw cs show ?thesis by (simp add: io_catch_def)
  qed
qed

lemma appends_all_py_print [simp]: "appends_all P (py_print env s)"
  by (simp add: py_print_eq)

lemma appends_all_print_error [simp]: "appends_all P (print_error env e)"
  by (simp add: print_error_eq)

lemma appends_all_reply_message:
  "(\<And>u hs p. P (HttpPost u hs p)) \<Longrightarrow> appends_all P (reply_message env t reply_token txt)"
  by (simp add: appends_all_def reply_message_eq)

lemma appends_all_get_user_conversation:
  "(\<And>u n. P (DbRead u n)) \<Longrightarrow> appends_all P (get_user_conversation env user_id)"
  by (simp add: appends_all_def get_user_conversation_eq)

lemma appends_all_complete:
  "(\<And>ms t n. P (Complete ms t n)) \<Longrightarrow> appends_all P (complete env messages)"
  by (simp add: appends_all_def complete_eq)

lemma appends_all_save_line_message:
  "(\<And>u r t. P (DbWrite u r t)) \<Longrightarrow> appends_all P (save_line_message env user_id role txt)"
  by (simp add: appends_all_def save_line_message_eq split: option.splits)

lemma appends_all_save_user_message:
  "(\<And>u r t. P (DbWrite u r t)) \<Longrightarrow> appends_all P (save_user_message env user_id um ai)"
  by (simp add: save_user_message_def appends_all_bind appends_all_save_line_message)

lemma appends_all_except_block:
  "(\<And>u hs p. P (HttpPost u hs p)) \<Longrightarrow> appends_all P (except_block env reply_token e)"
  by (simp add: except_block_def io_defs appends_all_bind appends_all_catch
      appends_all_reply_message)

lemma appends_try_block: "appends_all (\<lambda>c. True) (try_block env user_id reply_token um)"
  by (simp add: try_block_def io_defs appends_all_bind appends_all_get_user_conversation
      appends_all_complete appends_all_save_user_message appends_all_reply_message)

lemma appends_handle_line_event: "appends_all (\<lambda>c. True) (handle_line_event env event)"
  by (simp add: handle_line_event_def io_defs appends_all_bind appends_all_catch appends_try_block
      appends_all_except_block)

lemma handle_calls:
  "calls (snd (handle_line_event env event w)) = calls w @ event_calls env event w"
proof -
  from appends_handle_line_event [of env event]
  obtain cs where "calls (snd (handle_line_event env event w)) = calls w @ cs"
    unfolding appends_all_def by blast
  then show ?thesis by (simp add: event_calls_def new_calls_def)
qed

section \<open>Facts about the example inputs\<close>

lemma ex_event_fields:
  "ev_user_id ex_event = JStr (lit ''u1'')"
  "ev_reply_token ex_event = JStr (lit ''t1'')"
  "ev_user_message ex_event = JStr (lit ''hi'')"
  by (simp_all add: ex_event_def ev_defs get_or_def)

lemma ex_event_ok: "event_ok ex_event"
  by (simp add: event_ok_def ex_event_def get_or_def)

lemma ex_event_actionable: "actionable ex_event"
  by (simp add: actionable_def ex_event_ok ex_event_fields)
     (simp add: ex_event_def ev_defs get_or_def lit_def)

lemma ex_event_second_fields:
  "ev_user_id ex_event_second = JStr (lit ''u9'')"
  "ev_reply_token ex_event_second = JStr (lit ''t9'')"
  "ev_user_message ex_event_second = JStr (lit ''yo'')"
  by (simp_all add: ex_event_second_def ev_defs get_or_def)

lemma ex_event_second_actionable: "actionable ex_event_second"
  by (simp add: actionable_def ex_event_second_fields)
     (simp add: ex_event_second_def ev_defs get_or_def lit_def event_ok_def)

lemma ex_env_sel [simp]:
  "LINE_CHANNEL_ACCESS_TOKEN ex_env = lit ''token''"
  "complete_once ex_env w ms = Inr (JObj [(lit ''content'', JStr (lit ''hello''))])"
  "db_read_error ex_env w u = None"
  "db_write_error ex_env w u r t = None"
  "http_post ex_env w url hs p = Inr (JObj [])"
  "json_loads ex_env = ex_loads"
  by (simp_all add: ex_env_def)

lemma encodable_ex_env: "encodable ex_env s \<longleftrightarrow> list_all (\<lambda>c. \<not> (0xD800 \<le> c \<and> c \<le> 0xDFFF)) s"
  by (induction s) (auto simp add: encodable_def ex_env_def)

lemma surrogate_not_encodable: "\<not> encodable ex_env [0xD800]"
  by (simp add: encodable_ex_env)

lemma encodable_lit_ex:
  "encodable ex_env (lit ''u1'')" "encodable ex_env (lit ''u9'')"
  "encodable ex_env (lit ''status 400'')"
  by (simp_all add: encodable_ex_env lit_def)

section \<open>Actionable events\<close>

lemma try_block_split:
  "try_block env user_id reply_token um =
     io_bind (prepare_reply env user_id um) (\<lambda>ai.
     io_bind (reply_message env (LINE_CHANNEL_ACCESS_TOKEN env) reply_token ai) (\<lambda>r.
     io_return ()))"
  by (rule ext)
     (simp add: try_block_def prepare_reply_def io_bind_def io_defs split: prod.splits sum.splits)

lemma handle_actionable_cases:
  assumes "actionable event"
  shows "handle_line_event env event w =
     (case prepare_reply env (ev_user_id event) (ev_user_message event) w of
        (Inl x, w1) \<Rightarrow> except_block env (ev_reply_token event) x w1
      | (Inr ai, w1) \<Rightarrow>
          (case reply_message env (LINE_CHANNEL_ACCESS_TOKEN env) (ev_reply_token event) ai w1 of
             (Inl x, w2) \<Rightarrow> except_block env (ev_reply_token event) x w2
           | (Inr r, w2) \<Rightarrow> (Inr (), w2)))"
  by (simp add: handle_actionable [OF assms] try_block_split io_catch_def io_bind_def io_defs
      split: prod.splits sum.splits)

lemma prepare_reply_no_replies:
  "\<exists>cs. calls (snd (prepare_reply env user_id um w)) = calls w @ cs \<and> replies cs = []"
proof -
  let ?P = "\<lambda>c. reply_of c = None"
  have "appends_all ?P (prepare_reply env user_id um)"
    by (simp add: prepare_reply_def io_defs appends_all_bind appends_all_get_user_conversation
        appends_all_complete appends_all_save_user_message)
  then obtain cs where cs: "calls (snd (prepare_reply env user_id um w)) = calls w @ cs"
    "list_all ?P cs"
    unfolding appends_all_def by blast
  from cs(2) have "replies cs = []" by (induction cs) simp_all
  with cs(1) show ?thesis by blast
qed

lemma replies_event_calls:
  assumes "actionable event"
  shows "replies (event_calls env event w) =
     (case prepare_reply env (ev_user_id event) (ev_user_message event) w of
        (Inl x, w1) \<Rightarrow>
          if error_printable env x then [(ev_reply_token event, JStr error_text)] else []
      | (Inr ai, w1) \<Rightarrow>
          (case http_post env w1 reply_url (headers (LINE_CHANNEL_ACCESS_TOKEN env))
                  (reply_payload (ev_reply_token event) ai) of
             Inl msg \<Rightarrow>
               if encodable env msg
               then [(ev_reply_token event, ai), (ev_reply_token event, JStr error_text)]
               else [(ev_reply_token event, ai)]
           | Inr r \<Rightarrow> [(ev_reply_token event, ai)]))"
proof -
  obtain r w1 where p: "prepare_reply env (ev_user_id event) (ev_user_message event) w = (r, w1)"
    by (cases "prepare_reply env (ev_user_id event) (ev_user_message event) w")
  from prepare_reply_no_replies [of env "ev_user_id event" "ev_user_message event" w] p
  obtain cs where cs: "calls w1 = calls w @ cs" "replies cs = []" by auto
  show ?thesis
    by (cases r)
       (simp_all add: event_calls_def new_calls_def handle_actionable_cases [OF assms] p cs
          except_block_eq reply_message_eq error_printable_def split: sum.splits)
qed

text \<open>
  Claim C2, amended. For every actionable event, every outbound reply call made while
  handling it uses the event's reply token, and at most two are made. When the dispatch
  fails before its own reply call and the \<open>print\<close> of the exception (line 121) does not
  raise, exactly one call is made, the apology. When the dispatch's own reply call
  succeeds, exactly one call is made, the generated text. When the dispatch's own reply
  call fails and the \<open>print\<close> of its exception does not raise, exactly two calls are made
  with the same token, the generated text and then the apology.
\<close>

theorem reply_calls_of_actionable_event:
  assumes "actionable event"
  shows "list_all (\<lambda>r. fst r = ev_reply_token event) (replies (event_calls env event w)) \<and>
     length (replies (event_calls env event w)) \<le> 2 \<and>
     (case prepare_reply env (ev_user_id event) (ev_user_message event) w of
        (Inl x, w1) \<Rightarrow>
          error_printable env x \<longrightarrow>
            replies (event_calls env event w) = [(ev_reply_token event, JStr error_text)]
      | (Inr ai, w1) \<Rightarrow>
          (case http_post env w1 reply_url (headers (LINE_CHANNEL_ACCESS_TOKEN env))
                  (reply_payload (ev_reply_token event) ai) of
             Inl msg \<Rightarrow>
               encodable env msg \<longrightarrow>
                 replies (event_calls env event w)
                   = [(ev_reply_token event, ai), (ev_reply_token event, JStr error_text)]
           | Inr r \<Rightarrow> replies (event_calls env event w) = [(ev_reply_token event, ai)]))"
  by (simp add: replies_event_calls [OF assms] split: prod.splits sum.splits)

lemma ex_prepare_reply:
  "fst (prepare_reply ex_env (JStr (lit ''u1'')) (JStr (lit ''hi'')) w0) = Inr (JStr (lit ''hello''))"
  by (simp add: prepare_reply_def io_bind_def io_defs get_user_conversation_eq complete_eq
      save_user_message_def save_line_message_eq py_print_eq py_str_def encodable_lit_ex
      get_or_def)

theorem reply_calls_of_actionable_event_witness:
  "list_all (\<lambda>r. fst r = JStr (lit ''t1'')) (replies (event_calls ex_env ex_event w0)) \<and>
   length (replies (event_calls ex_env ex_event w0)) \<le> 2 \<and>
   replies (event_calls ex_env ex_event w0) = [(JStr (lit ''t1''), JStr (lit ''hello''))]"
proof -
  obtain w1 where p: "prepare_reply ex_env (JStr (lit ''u1'')) (JStr (lit ''hi'')) w0
                      = (Inr (JStr (lit ''hello'')), w1)"
    using ex_prepare_reply
    by (cases "prepare_reply ex_env (JStr (lit ''u1'')) (JStr (lit ''hi'')) w0") auto
  from reply_calls_of_actionable_event [OF ex_event_actionable, of ex_env w0] p
  show ?thesis by (simp add: ex_event_fields)
qed

lemma ex_variants_sel [simp]:
  "LINE_CHANNEL_ACCESS_TOKEN ex_env_transport_fails = lit ''token''"
  "complete_once ex_env_transport_fails w ms = Inr (JObj [(lit ''content'', JStr (lit ''hello''))])"
  "db_read_error ex_env_transport_fails w u = None"
  "db_write_error ex_env_transport_fails w u r t = None"
  "http_post ex_env_transport_fails w url hs p = Inl (lit ''status 400'')"
  "json_loads ex_env_transport_fails = ex_loads"
  "LINE_CHANNEL_ACCESS_TOKEN ex_env_completion_unprintable = lit ''token''"
  "complete_once ex_env_completion_unprintable w ms = Inl [0xD800]"
  "db_read_error ex_env_completion_unprintable w u = None"
  "json_loads ex_env_completion_unprintable = ex_loads"
  "LINE_CHANNEL_ACCESS_TOKEN ex_env_assistant_write_unprintable = lit ''token''"
  "complete_once ex_env_assistant_write_unprintable w ms
     = Inr (JObj [(lit ''content'', JStr (lit ''hello''))])"
  "db_read_error ex_env_assistant_write_unprintable w u = None"
  "db_write_error ex_env_assistant_write_unprintable w u r t
     = (if r = lit ''assistant'' then Some [0xD800] else None)"
  by (simp_all add: ex_env_transport_fails_def ex_env_completion_unprintable_def
      ex_env_assistant_write_unprintable_def ex_env_def)

lemma encodable_ex_variants [simp]:
  "encodable ex_env_transport_fails s = encodable ex_env s"
  "encodable ex_env_completion_unprintable s = encodable ex_env s"
  "encodable ex_env_assistant_write_unprintable s = encodable ex_env s"
  by (simp_all add: encodable_def ex_env_transport_fails_def ex_env_completion_unprintable_def
      ex_env_assistant_write_unprintable_def)

text \<open>
  Claim C2 as stated fails: when the transport fails, the event's reply token is used
  in two outbound reply calls, the generated text and then the apology; and when the
  completion service raises an exception whose message stdout cannot encode, no reply
  call is made at all.
\<close>

theorem failed_reply_is_followed_by_a_second_reply:
  "replies (event_calls ex_env_transport_fails ex_event w0) =
     [(JStr (lit ''t1''), JStr (lit ''hello'')), (JStr (lit ''t1''), JStr error_text)] \<and>
   replies (event_calls ex_env_completion_unprintable ex_event w0) = []"
proof -
  have a: "fst (prepare_reply ex_env_transport_fails (JStr (lit ''u1'')) (JStr (lit ''hi'')) w0)
           = Inr (JStr (lit ''hello''))"
    by (simp add: prepare_reply_def io_bind_def io_defs get_user_conversation_eq complete_eq
        save_user_message_def save_line_message_eq py_print_eq py_str_def encodable_lit_ex
        get_or_def)
  have b: "fst (prepare_reply ex_env_completion_unprintable (JStr (lit ''u1'')) (JStr (lit ''hi'')) w0)
           = Inl (DownstreamError [0xD800])"
    by (simp add: prepare_reply_def io_bind_def io_defs get_user_conversation_eq complete_eq
        py_str_def encodable_lit_ex)
  have c: "\<not> error_printable ex_env_completion_unprintable (DownstreamError [0xD800])"
    by (simp add: error_printable_def surrogate_not_encodable)
  from a b c show ?thesis
    by (auto simp add: replies_event_calls [OF ex_event_actionable] ex_event_fields
        encodable_lit_ex split: prod.splits sum.splits)
qed

section \<open>Acknowledgement: properties\<close>

lemma py_get_Inl: "py_get v k d = Inl x \<Longrightarrow> x = AttributeError"
  by (cases v) auto

lemma prepare_reply_error_printable:
  assumes "failures_printable env" "fst (prepare_reply env u m w) = Inl x"
  shows "error_printable env x"
  using assms
  by (auto dest: py_get_Inl simp add: prepare_reply_def io_bind_def io_defs get_user_conversation_eq complete_eq
      save_user_message_def save_line_message_eq py_print_eq failures_printable_def
      error_printable_def outcome_def
      split: prod.splits sum.splits option.splits if_splits json.splits)

lemma reply_message_error_printable:
  assumes "failures_printable env" "fst (reply_message env t tok txt w) = Inl x"
  shows "error_printable env x"
  using assms
  by (auto simp add: reply_message_eq failures_printable_def error_printable_def outcome_def
      split: sum.splits)

lemma handle_actionable_no_raise:
  assumes "actionable event" "failures_printable env"
  shows "fst (handle_line_event env event w) = Inr ()"
proof -
  obtain r w1 where p: "prepare_reply env (ev_user_id event) (ev_user_message event) w = (r, w1)"
    by (cases "prepare_reply env (ev_user_id event) (ev_user_message event) w")
  show ?thesis
  proof (cases r)
    case (Inl x)
    with p prepare_reply_error_printable [OF assms(2), of "ev_user_id event" "ev_user_message event" w x]
    show ?thesis by (simp add: handle_actionable_cases [OF assms(1)] except_block_eq)
  next
    case (Inr ai)
    obtain r2 w2 where q:
      "reply_message env (LINE_CHANNEL_ACCESS_TOKEN env) (ev_reply_token event) ai w1 = (r2, w2)"
      by (cases "reply_message env (LINE_CHANNEL_ACCESS_TOKEN env) (ev_reply_token event) ai w1")
    show ?thesis
    proof (cases r2)
      case (Inl x)
      with q reply_message_error_printable [OF assms(2),
        of "LINE_CHANNEL_ACCESS_TOKEN env" "ev_reply_token event" ai w1 x]
      show ?thesis using p Inr by (simp add: handle_actionable_cases [OF assms(1)] except_block_eq)
    next
      case (Inr b)
      with p q \<open>r = Inr ai\<close> show ?thesis by (simp add: handle_actionable_cases [OF assms(1)])
    qed
  qed
qed




lemma gate_passed:
  assumes "passes_gate env body x_line_signature"
  shows "line_webhook env body x_line_signature = parse_and_dispatch env body"
  using assms by (auto simp add: passes_gate_def line_webhook_def parse_and_dispatch_def io_defs)






lemma webhook_single_event:
  assumes "passes_gate env body x_line_signature"
    and "json_loads env body = Inr data"
    and "is_dict data"
    and "get_or data (lit ''events'') (JArr []) = JArr [event]"
  shows "line_webhook env body x_line_signature w =
     (case handle_line_event env event w of
        (Inl e, w') \<Rightarrow> (Inl e, w')
      | (Inr u, w') \<Rightarrow> (Inr status_ok, w'))"
  using assms
  by (simp add: gate_passed parse_and_dispatch_def py_get_dict io_defs io_bind_def
      split: prod.splits sum.splits)

lemma ex_single_event:
  assumes "json_loads env = ex_loads"
  shows "line_webhook env ex_body None w =
     (case handle_line_event env ex_event w of
        (Inl e, w') \<Rightarrow> (Inl e, w')
      | (Inr u, w') \<Rightarrow> (Inr status_ok, w'))"
  by (rule webhook_single_event [where data = ex_envelope])
     (simp_all add: passes_gate_def header_truthy_def assms ex_loads_def ex_envelope_def get_or_def)

section \<open>Traces of an actionable event\<close>

lemma get_user_conversation_Inr:
  assumes "get_user_conversation env user_id w = (Inr history, w1)"
  shows "w1 = log_call (DbRead user_id 10) w" "history = conversation_window w user_id"
    "db_read_error env w user_id = None" "encodable env (py_str env user_id)"
  using assms by (auto simp add: get_user_conversation_eq split: option.splits if_splits)

lemma complete_result:
  assumes "complete env messages w1 = (r, w2)"
  shows "w2 = log_call (Complete messages (7, -1) 500) w1"
  using assms by (auto simp add: complete_eq)

lemma save_line_message_Inr:
  assumes "save_line_message env user_id role txt w = (Inr (), w')"
  shows "w' = log_call (DbWrite user_id role txt)
               (w\<lparr>store := store w @ [\<lparr>t_user = user_id, t_role = role, t_content = txt\<rparr>]\<rparr>)"
  using assms by (auto simp add: save_line_message_eq split: option.splits)

lemma save_line_message_Inl:
  assumes "save_line_message env user_id role txt w = (Inl x, w')"
  shows "w' = log_call (DbWrite user_id role txt) w"
  using assms by (auto simp add: save_line_message_eq split: option.splits)

text \<open>A failed completion call: the apology is sent when the exception can be printed,
  and the handler raises before any reply when it cannot.\<close>

lemma completion_failure_event:
  assumes act: "actionable event"
    and rd: "get_user_conversation env (ev_user_id event) w = (Inr history, w1)"
    and cp: "complete env (build_messages history (ev_user_message event)) w1 = (Inl x, w2)"
  shows "handle_line_event env event w =
     (if error_printable env x
      then (Inr (),
            log_call (HttpPost reply_url (headers (LINE_CHANNEL_ACCESS_TOKEN env))
                        (reply_payload (ev_reply_token event) (JStr error_text)))
              (log_call (Complete (build_messages history (ev_user_message event)) (7, -1) 500)
                 (log_call (DbRead (ev_user_id event) 10) w)))
      else (Inl UnicodeEncodeError,
            log_call (Complete (build_messages history (ev_user_message event)) (7, -1) 500)
              (log_call (DbRead (ev_user_id event) 10) w)))"
proof -
  have p: "prepare_reply env (ev_user_id event) (ev_user_message event) w = (Inl x, w2)"
    by (simp add: prepare_reply_def io_bind_def rd cp)
  show ?thesis
    using get_user_conversation_Inr(1) [OF rd] complete_result [OF cp]
    by (simp add: handle_actionable_cases [OF act] p except_block_eq)
qed

text \<open>A failed write of the assistant's turn after the user's turn was written.\<close>

lemma assistant_write_failure_event:
  assumes act: "actionable event"
    and rd: "get_user_conversation env (ev_user_id event) w = (Inr history, w1)"
    and cp: "complete env (build_messages history (ev_user_message event)) w1 = (Inr result, w2)"
    and ai: "py_get result (lit ''content'') (JStr no_response_text) = Inr ai_response"
    and s1: "save_line_message env (ev_user_id event) (lit ''user'') (ev_user_message event) w2
               = (Inr (), w3)"
    and s2: "save_line_message env (ev_user_id event) (lit ''assistant'') ai_response w3
               = (Inl x, w4)"
  shows "handle_line_event env event w =
     (if error_printable env x
      then (Inr (),
            log_call (HttpPost reply_url (headers (LINE_CHANNEL_ACCESS_TOKEN env))
                        (reply_payload (ev_reply_token event) (JStr error_text))) w4)
      else (Inl UnicodeEncodeError, w4))"
    and "calls w4 = calls w @
           [DbRead (ev_user_id event) 10,
            Complete (build_messages history (ev_user_message event)) (7, -1) 500,
            DbWrite (ev_user_id event) (lit ''user'') (ev_user_message event),
            DbWrite (ev_user_id event) (lit ''assistant'') ai_response]"
    and "store w4 = store w @
           [\<lparr>t_user = ev_user_id event, t_role = lit ''user'',
             t_content = ev_user_message event\<rparr>]"
proof -
  have p: "prepare_reply env (ev_user_id event) (ev_user_message event) w = (Inl x, w4)"
    by (simp add: prepare_reply_def save_user_message_def io_bind_def io_defs rd cp ai s1 s2)
  show "handle_line_event env event w =
     (if error_printable env x
      then (Inr (),
            log_call (HttpPost reply_url (headers (LINE_CHANNEL_ACCESS_TOKEN env))
                        (reply_payload (ev_reply_token event) (JStr error_text))) w4)
      else (Inl UnicodeEncodeError, w4))"
    by (simp add: handle_actionable_cases [OF act] p except_block_eq)
  show "calls w4 = calls w @
           [DbRead (ev_user_id event) 10,
            Complete (build_messages history (ev_user_message event)) (7, -1) 500,
            DbWrite (ev_user_id event) (lit ''user'') (ev_user_message event),
            DbWrite (ev_user_id event) (lit ''assistant'') ai_response]"
    using get_user_conversation_Inr(1) [OF rd] complete_result [OF cp]
      save_line_message_Inr [OF s1] save_line_message_Inl [OF s2]
    by simp
  show "store w4 = store w @
           [\<lparr>t_user = ev_user_id event, t_role = lit ''user'',
             t_content = ev_user_message event\<rparr>]"
    using get_user_conversation_Inr(1) [OF rd] complete_result [OF cp]
      save_line_message_Inr [OF s1] save_line_message_Inl [OF s2]
    by simp
qed

section \<open>Evaluations\<close>

lemma ex_read_w0:
  assumes "db_read_error env w0 (JStr (lit ''u1'')) = None" "encodable env (lit ''u1'')"
  shows "get_user_conversation env (ev_user_id ex_event) w0
           = (Inr [], log_call (DbRead (JStr (lit ''u1'')) 10) w0)"
  using assms
  by (simp add: get_user_conversation_eq ex_event_fields conversation_window_def last_n_def
      w0_def py_str_def)

lemma unprintable_completion_failure_event:
  "handle_line_event ex_env_completion_unprintable ex_event w0 =
     (Inl UnicodeEncodeError,
      log_call (Complete (build_messages [] (JStr (lit ''hi''))) (7, -1) 500)
        (log_call (DbRead (JStr (lit ''u1'')) 10) w0))"
proof -
  let ?env = ex_env_completion_unprintable
  have rd: "get_user_conversation ?env (ev_user_id ex_event) w0
              = (Inr [], log_call (DbRead (JStr (lit ''u1'')) 10) w0)"
    by (rule ex_read_w0) (simp_all add: encodable_lit_ex)
  have cp: "complete ?env (build_messages [] (ev_user_message ex_event))
              (log_call (DbRead (JStr (lit ''u1'')) 10) w0)
            = (Inl (DownstreamError [0xD800]),
               log_call (Complete (build_messages [] (ev_user_message ex_event)) (7, -1) 500)
                 (log_call (DbRead (JStr (lit ''u1'')) 10) w0))"
    by (simp add: complete_eq)
  have np: "\<not> error_printable ?env (DownstreamError [0xD800])"
    by (simp add: error_printable_def surrogate_not_encodable)
  from completion_failure_event [OF ex_event_actionable rd cp] np
  show ?thesis by (simp add: ex_event_fields)
qed


text \<open>
  Claim C5 at a failing input. The envelope holds one actionable event and the completion
  service raises an exception whose message is a lone surrogate, which the UTF-8 stdout
  cannot encode: the \<open>print\<close> of line 121 raises \<open>UnicodeEncodeError\<close> before the inner
  \<open>try\<close>, so no reply call is made and the answer is status 500. The store is unchanged.
\<close>

theorem unprintable_completion_failure_sends_no_apology:
  "fst (line_webhook ex_env_completion_unprintable ex_body None w0) = Inl UnicodeEncodeError \<and>
   http_response (fst (line_webhook ex_env_completion_unprintable ex_body None w0))
     = (500, JStr (lit ''Internal Server Error'')) \<and>
   replies (new_calls w0 (snd (line_webhook ex_env_completion_unprintable ex_body None w0))) = [] \<and>
   store (snd (line_webhook ex_env_completion_unprintable ex_body None w0)) = store w0"
  by (simp add: ex_single_event unprintable_completion_failure_event new_calls_def)

lemma unprintable_write_failure_event:
  "handle_line_event ex_env_assistant_write_unprintable ex_event w0 =
     (Inl UnicodeEncodeError,
      \<lparr>store = [\<lparr>t_user = JStr (lit ''u1''), t_role = lit ''user'',
                   t_content = JStr (lit ''hi'')\<rparr>],
       calls = [DbRead (JStr (lit ''u1'')) 10,
                Complete (build_messages [] (JStr (lit ''hi''))) (7, -1) 500,
                DbWrite (JStr (lit ''u1'')) (lit ''user'') (JStr (lit ''hi'')),
                DbWrite (JStr (lit ''u1'')) (lit ''assistant'') (JStr (lit ''hello''))]\<rparr>)"
proof -
  let ?env = ex_env_assistant_write_unprintable
  let ?u = "JStr (lit ''u1'')"
  let ?m = "JStr (lit ''hi'')"
  let ?w1 = "log_call (DbRead ?u 10) w0"
  let ?ms = "build_messages [] ?m"
  let ?w2 = "log_call (Complete ?ms (7, -1) 500) ?w1"
  let ?w3 = "log_call (DbWrite ?u (lit ''user'') ?m)
               (?w2\<lparr>store := store ?w2 @ [\<lparr>t_user = ?u, t_role = lit ''user'', t_content = ?m\<rparr>]\<rparr>)"
  let ?ai = "JStr (lit ''hello'')"
  let ?w4 = "log_call (DbWrite ?u (lit ''assistant'') ?ai) ?w3"
  have rd: "get_user_conversation ?env (ev_user_id ex_event) w0 = (Inr [], ?w1)"
    by (rule ex_read_w0) (simp_all add: encodable_lit_ex)
  have cp: "complete ?env (build_messages [] (ev_user_message ex_event)) ?w1
            = (Inr (JObj [(lit ''content'', ?ai)]), ?w2)"
    by (simp add: complete_eq ex_event_fields)
  have ai: "py_get (JObj [(lit ''content'', ?ai)]) (lit ''content'') (JStr no_response_text) = Inr ?ai"
    by simp
  have s1: "save_line_message ?env (ev_user_id ex_event) (lit ''user'') (ev_user_message ex_event) ?w2
            = (Inr (), ?w3)"
    by (simp add: save_line_message_eq ex_event_fields)
  have s2: "save_line_message ?env (ev_user_id ex_event) (lit ''assistant'') ?ai ?w3
            = (Inl (DownstreamError [0xD800]), ?w4)"
    by (simp add: save_line_message_eq ex_event_fields)
  have np: "\<not> error_printable ?env (DownstreamError [0xD800])"
    by (simp add: error_printable_def surrogate_not_encodable)
  from assistant_write_failure_event(1) [OF ex_event_actionable rd cp ai s1 s2] np
  show ?thesis by (simp add: ex_event_fields w0_def log_call_def)
qed

text \<open>
  Claim C10 at a failing input. The envelope holds one actionable event; the write of
  the user's turn succeeds and the write of the assistant's turn raises an exception
  whose message is a lone surrogate. The user's turn stays in the store, written before
  the assistant's write was tried, but the \<open>print\<close> of line 121 raises: the apology is
  not attempted and the request ends in an unhandled exception.
\<close>

theorem unprintable_write_failure_sends_no_apology:
  "fst (line_webhook ex_env_assistant_write_unprintable ex_body None w0) = Inl UnicodeEncodeError \<and>
   store (snd (line_webhook ex_env_assistant_write_unprintable ex_body None w0)) =
     [\<lparr>t_user = JStr (lit ''u1''), t_role = lit ''user'', t_content = JStr (lit ''hi'')\<rparr>] \<and>
   new_calls w0 (snd (line_webhook ex_env_assistant_write_unprintable ex_body None w0)) =
     [DbRead (JStr (lit ''u1'')) 10,
      Complete (build_messages [] (JStr (lit ''hi''))) (7, -1) 500,
      DbWrite (JStr (lit ''u1'')) (lit ''user'') (JStr (lit ''hi'')),
      DbWrite (JStr (lit ''u1'')) (lit ''assistant'') (JStr (lit ''hello''))] \<and>
   replies (new_calls w0 (snd (line_webhook ex_env_assistant_write_unprintable ex_body None w0)))
     = []"
proof -
  have j: "json_loads ex_env_assistant_write_unprintable = ex_loads"
    by (simp add: ex_env_assistant_write_unprintable_def ex_env_def)
  show ?thesis
    by (simp add: ex_single_event [OF j] unprintable_write_failure_event new_calls_def)
       (simp add: w0_def)
qed

section \<open>The completion request\<close>






section \<open>Order of the events\<close>

lemma for_each_run:
  "\<exists>k ws. k \<le> length es \<and> length ws = Suc k \<and> ws ! 0 = w \<and>
     (\<forall>i<k. h (es ! i) (ws ! i) = (Inr (), ws ! Suc i)) \<and>
     (if k = length es then for_each h es w = (Inr (), ws ! k)
      else \<exists>x w'. h (es ! k) (ws ! k) = (Inl x, w') \<and> for_each h es w = (Inl x, w'))"
proof (induction es arbitrary: w)
  case Nil
  have "0 \<le> length ([]::'a list) \<and> length [w] = Suc 0 \<and> [w] ! 0 = w \<and>
     (\<forall>i<0. h ([] ! i) ([w] ! i) = (Inr (), [w] ! Suc i)) \<and>
     (if 0 = length ([]::'a list) then for_each h [] w = (Inr (), [w] ! 0)
      else \<exists>x w'. h ([] ! 0) ([w] ! 0) = (Inl x, w') \<and> for_each h [] w = (Inl x, w'))"
    by simp
  then show ?case by blast
next
  case (Cons e es)
  obtain r w1 where hw: "h e w = (r, w1)" by (cases "h e w")
  show ?case
  proof (cases r)
    case (Inl x)
    with hw have "0 \<le> length (e # es) \<and> length [w] = Suc 0 \<and> [w] ! 0 = w \<and>
       (\<forall>i<0. h ((e # es) ! i) ([w] ! i) = (Inr (), [w] ! Suc i)) \<and>
       (if 0 = length (e # es) then for_each h (e # es) w = (Inr (), [w] ! 0)
        else \<exists>x w'. h ((e # es) ! 0) ([w] ! 0) = (Inl x, w')
                     \<and> for_each h (e # es) w = (Inl x, w'))"
      by simp
    then show ?thesis by blast
  next
    case (Inr u)
    from Cons.IH [of w1] obtain k ws where
      k: "k \<le> length es" and l: "length ws = Suc k" and z: "ws ! 0 = w1"
      and st: "\<forall>i<k. h (es ! i) (ws ! i) = (Inr (), ws ! Suc i)"
      and fin: "if k = length es then for_each h es w1 = (Inr (), ws ! k)
                else \<exists>x w'. h (es ! k) (ws ! k) = (Inl x, w') \<and> for_each h es w1 = (Inl x, w')"
      by blast
    have st': "\<forall>i<Suc k. h ((e # es) ! i) ((w # ws) ! i) = (Inr (), (w # ws) ! Suc i)"
    proof (intro allI impI)
      fix i assume "i < Suc k"
      show "h ((e # es) ! i) ((w # ws) ! i) = (Inr (), (w # ws) ! Suc i)"
      proof (cases i)
        case 0
        with hw Inr z show ?thesis by simp
      next
        case (Suc j)
        with \<open>i < Suc k\<close> st show ?thesis by simp
      qed
    qed
    have fin': "if Suc k = length (e # es) then for_each h (e # es) w = (Inr (), (w # ws) ! Suc k)
                else \<exists>x w'. h ((e # es) ! Suc k) ((w # ws) ! Suc k) = (Inl x, w')
                             \<and> for_each h (e # es) w = (Inl x, w')"
      using fin hw Inr by (simp split: if_splits)
    from k l st' fin' have "Suc k \<le> length (e # es) \<and> length (w # ws) = Suc (Suc k)
       \<and> (w # ws) ! 0 = w
       \<and> (\<forall>i<Suc k. h ((e # es) ! i) ((w # ws) ! i) = (Inr (), (w # ws) ! Suc i))
       \<and> (if Suc k = length (e # es) then for_each h (e # es) w = (Inr (), (w # ws) ! Suc k)
          else \<exists>x w'. h ((e # es) ! Suc k) ((w # ws) ! Suc k) = (Inl x, w')
                       \<and> for_each h (e # es) w = (Inl x, w'))"
      by simp
    then show ?thesis by blast
  qed
qed

lemma webhook_loop:
  assumes "passes_gate env body x_line_signature"
    and "json_loads env body = Inr data"
    and "py_get data (lit ''events'') (JArr []) = Inr events"
    and "py_iter events = Inr es"
  shows "line_webhook env body x_line_signature w =
     (case for_each (handle_line_event env) es w of
        (Inl x, w') \<Rightarrow> (Inl x, w')
      | (Inr u, w') \<Rightarrow> (Inr status_ok, w'))"
  using assms
  by (simp add: gate_passed parse_and_dispatch_def io_defs io_bind_def
      split: prod.splits sum.splits)

text \<open>
  Claim C9. For a request that passes the gate and whose body holds the events \<open>es\<close>,
  \<open>line_webhook\<close> handles the events one at a time in list order. There is a run of
  worlds \<open>ws\<close>, starting in the world of the request: event \<open>i\<close> is handled to its end
  (fallback reply included) in the world event \<open>i - 1\<close> left, and its calls are added to
  the log as one block after those of its predecessors. The run ends either after the last
  event, with the acknowledgement in the world that event left, or at the first event that
  raises, with that exception. (\<open>await\<close> is a call that returns before the next statement
  runs.)
\<close>

theorem events_handled_in_order:
  assumes "passes_gate env body x_line_signature"
    and "json_loads env body = Inr data"
    and "py_get data (lit ''events'') (JArr []) = Inr events"
    and "py_iter events = Inr es"
  shows "\<exists>k ws. k \<le> length es \<and> length ws = Suc k \<and> ws ! 0 = w \<and>
     (\<forall>i<k. handle_line_event env (es ! i) (ws ! i) = (Inr (), ws ! Suc i) \<and>
            calls (ws ! Suc i) = calls (ws ! i) @ event_calls env (es ! i) (ws ! i)) \<and>
     (if k = length es
      then line_webhook env body x_line_signature w = (Inr status_ok, ws ! k)
      else \<exists>x w'. handle_line_event env (es ! k) (ws ! k) = (Inl x, w') \<and>
                   line_webhook env body x_line_signature w = (Inl x, w'))"
proof -
  from for_each_run [of es w "handle_line_event env"] obtain k ws where
    k: "k \<le> length es" and l: "length ws = Suc k" and z: "ws ! 0 = w"
    and st: "\<forall>i<k. handle_line_event env (es ! i) (ws ! i) = (Inr (), ws ! Suc i)"
    and fin: "if k = length es then for_each (handle_line_event env) es w = (Inr (), ws ! k)
              else \<exists>x w'. handle_line_event env (es ! k) (ws ! k) = (Inl x, w')
                           \<and> for_each (handle_line_event env) es w = (Inl x, w')"
    by blast
  have st': "\<forall>i<k. handle_line_event env (es ! i) (ws ! i) = (Inr (), ws ! Suc i) \<and>
                   calls (ws ! Suc i) = calls (ws ! i) @ event_calls env (es ! i) (ws ! i)"
  proof (intro allI impI)
    fix i assume "i < k"
    with st have s: "handle_line_event env (es ! i) (ws ! i) = (Inr (), ws ! Suc i)" by blast
    from handle_calls [of env "es ! i" "ws ! i"] s
    show "handle_line_event env (es ! i) (ws ! i) = (Inr (), ws ! Suc i) \<and>
          calls (ws ! Suc i) = calls (ws ! i) @ event_calls env (es ! i) (ws ! i)"
      by simp
  qed
  have fin': "if k = length es
      then line_webhook env body x_line_signature w = (Inr status_ok, ws ! k)
      else \<exists>x w'. handle_line_event env (es ! k) (ws ! k) = (Inl x, w') \<and>
                   line_webhook env body x_line_signature w = (Inl x, w')"
    using fin by (auto simp add: webhook_loop [OF assms] split: if_splits)
  from k l z st' fin' show ?thesis by blast
qed

lemma ex_env_printable: "failures_printable ex_env"
  by (simp add: failures_printable_def)

lemma ex_prepare_reply_any:
  assumes "encodable ex_env s"
  shows "fst (prepare_reply ex_env (JStr s) m w) = Inr (JStr (lit ''hello''))"
  using assms
  by (simp add: prepare_reply_def io_bind_def io_defs get_user_conversation_eq complete_eq
      save_user_message_def save_line_message_eq py_print_eq py_str_def get_or_def)

lemma ex_replies:
  assumes "actionable event" "ev_user_id event = JStr s" "encodable ex_env s"
  shows "replies (event_calls ex_env event w) = [(ev_reply_token event, JStr (lit ''hello''))]"
proof -
  obtain w1 where "prepare_reply ex_env (JStr s) (ev_user_message event) w
                   = (Inr (JStr (lit ''hello'')), w1)"
    using ex_prepare_reply_any [OF assms(3), of "ev_user_message event" w]
    by (cases "prepare_reply ex_env (JStr s) (ev_user_message event) w") auto
  then show ?thesis by (simp add: replies_event_calls [OF assms(1)] assms(2))
qed

theorem events_handled_in_order_witness:
  "(\<exists>k ws. k \<le> length [ex_event, ex_event_second] \<and> length ws = Suc k \<and> ws ! 0 = w0 \<and>
     (\<forall>i<k. handle_line_event ex_env ([ex_event, ex_event_second] ! i) (ws ! i)
              = (Inr (), ws ! Suc i) \<and>
            calls (ws ! Suc i) = calls (ws ! i)
              @ event_calls ex_env ([ex_event, ex_event_second] ! i) (ws ! i)) \<and>
     (if k = length [ex_event, ex_event_second]
      then line_webhook ex_env ex_body_two None w0 = (Inr status_ok, ws ! k)
      else \<exists>x w'. handle_line_event ex_env ([ex_event, ex_event_second] ! k) (ws ! k) = (Inl x, w')
                   \<and> line_webhook ex_env ex_body_two None w0 = (Inl x, w'))) \<and>
   replies (new_calls w0 (snd (line_webhook ex_env ex_body_two None w0)))
     = [(JStr (lit ''t1''), JStr (lit ''hello'')), (JStr (lit ''t9''), JStr (lit ''hello''))]"
proof -
  have g: "passes_gate ex_env ex_body_two None" by (simp add: passes_gate_def header_truthy_def)
  have l: "json_loads ex_env ex_body_two = Inr ex_envelope_two"
    by (simp add: ex_loads_def ex_body_def ex_body_two_def)
  have e: "py_get ex_envelope_two (lit ''events'') (JArr []) = Inr (JArr [ex_event, ex_event_second])"
    by (simp add: ex_envelope_two_def)
  have i: "py_iter (JArr [ex_event, ex_event_second]) = Inr [ex_event, ex_event_second]" by simp
  have "fst (handle_line_event ex_env ex_event w0) = Inr ()"
    by (rule handle_actionable_no_raise [OF ex_event_actionable ex_env_printable])
  then obtain w1 where h1: "handle_line_event ex_env ex_event w0 = (Inr (), w1)"
    by (cases "handle_line_event ex_env ex_event w0") auto
  have "fst (handle_line_event ex_env ex_event_second w1) = Inr ()"
    by (rule handle_actionable_no_raise [OF ex_event_second_actionable ex_env_printable])
  then obtain w2 where h2: "handle_line_event ex_env ex_event_second w1 = (Inr (), w2)"
    by (cases "handle_line_event ex_env ex_event_second w1") auto
  have w: "line_webhook ex_env ex_body_two None w0 = (Inr status_ok, w2)"
    by (simp add: webhook_loop [OF g l e i] h1 h2)
  from handle_calls [of ex_env ex_event w0] h1
  have c1: "calls w1 = calls w0 @ event_calls ex_env ex_event w0" by simp
  from handle_calls [of ex_env ex_event_second w1] h2
  have c2: "calls w2 = calls w1 @ event_calls ex_env ex_event_second w1" by simp
  have r: "replies (new_calls w0 (snd (line_webhook ex_env ex_body_two None w0)))
     = [(JStr (lit ''t1''), JStr (lit ''hello'')), (JStr (lit ''t9''), JStr (lit ''hello''))]"
    using ex_replies [OF ex_event_actionable ex_event_fields(1) encodable_lit_ex(1), of w0]
      ex_replies [OF ex_event_second_actionable ex_event_second_fields(1) encodable_lit_ex(2), of w1]
    by (simp add: w new_calls_def c1 c2 ex_event_fields ex_event_second_fields)
  from events_handled_in_order [OF g l e i, of w0] r show ?thesis by blast
qed

text \<open>A user id that stdout cannot encode: the \<open>print\<close> of line 138 raises inside the
  \<open>try\<close>, no completion call is made and the apology is sent.\<close>

lemma unprintable_user_id_gets_the_apology:
  assumes "actionable event" "db_read_error env w (ev_user_id event) = None"
    "\<not> encodable env (py_str env (ev_user_id event))"
  shows "handle_line_event env event w =
     (Inr (),
      log_call (HttpPost reply_url (headers (LINE_CHANNEL_ACCESS_TOKEN env))
                  (reply_payload (ev_reply_token event) (JStr error_text)))
        (log_call (DbRead (ev_user_id event) 10) w))"
proof -
  have g: "get_user_conversation env (ev_user_id event) w
             = (Inl UnicodeEncodeError, log_call (DbRead (ev_user_id event) 10) w)"
    using assms(2,3) by (simp add: get_user_conversation_eq)
  have p: "prepare_reply env (ev_user_id event) (ev_user_message event) w
             = (Inl UnicodeEncodeError, log_call (DbRead (ev_user_id event) 10) w)"
    by (simp add: prepare_reply_def io_bind_def g)
  show ?thesis
    by (simp add: handle_actionable_cases [OF assms(1)] p except_block_eq error_printable_def)
qed

end
